theory Spec2Isabelle
  imports Main "HOL-Library.Multiset"
begin

section \<open>JavaScript values used by the code\<close>

text \<open>
  Numbers that may be \<open>NaN\<close> are \<open>int option\<close> (\<open>None\<close> is \<open>NaN\<close>); every number the
  modelled code handles is an integer. Optional fields (\<open>field?: T\<close>) are \<open>T option\<close>
  with \<open>None\<close> for \<open>undefined\<close>. Strings are \<open>string\<close>.
\<close>

text \<open>\<open>a || b\<close> on an optional string: \<open>undefined\<close> and the empty string are falsy.\<close>

definition orElse :: "string option \<Rightarrow> string \<Rightarrow> string" where
  "orElse a b = (case a of None \<Rightarrow> b | Some s \<Rightarrow> if s = [] then b else s)"

text \<open>\<open>a || false\<close> and \<open>a || 0\<close> on optional booleans and numbers.\<close>

definition orFalse :: "bool option \<Rightarrow> bool" where
  "orFalse a = (case a of None \<Rightarrow> False | Some b \<Rightarrow> b)"

definition orZero :: "int option \<Rightarrow> int" where
  "orZero a = (case a of None \<Rightarrow> 0 | Some n \<Rightarrow> n)"

subsection \<open>Number to string, string to number\<close>

definition digitChar :: "nat \<Rightarrow> char" where
  "digitChar n = char_of (48 + n)"

fun natToString :: "nat \<Rightarrow> string" where
  "natToString n = (if n < 10 then [digitChar n] else natToString (n div 10) @ [digitChar (n mod 10)])"

declare natToString.simps [simp del]

text \<open>\<open>String(x)\<close> and the template conversion \<open>`${x}`\<close> of a number.\<close>

definition numberToString :: "int option \<Rightarrow> string" where
  "numberToString x = (case x of None \<Rightarrow> ''NaN''
     | Some n \<Rightarrow> if n < 0 then CHR ''-'' # natToString (nat (- n)) else natToString (nat n))"

text \<open>\<open>s.padStart(n, c)\<close> with a one-character filler.\<close>

definition padStart :: "nat \<Rightarrow> char \<Rightarrow> string \<Rightarrow> string" where
  "padStart n c s = replicate (n - length s) c @ s"

text \<open>\<open>s.split(sep)\<close> with a one-character separator; the result is never empty.\<close>

fun split :: "char \<Rightarrow> string \<Rightarrow> string list" where
  "split sep [] = [[]]"
| "split sep (c # cs) =
     (if c = sep then [] # split sep cs
      else (case split sep cs of [] \<Rightarrow> [[c]] | w # ws \<Rightarrow> (c # w) # ws))"

definition isWhite :: "char \<Rightarrow> bool" where
  "isWhite c = (of_char c \<in> {9, 10, 11, 12, 13, 32 :: nat})"

definition isDigit :: "char \<Rightarrow> bool" where
  "isDigit c = (48 \<le> (of_char c :: nat) \<and> (of_char c :: nat) \<le> 57)"

definition digitsValue :: "string \<Rightarrow> nat" where
  "digitsValue ds = foldl (\<lambda>acc c. 10 * acc + (of_char c - 48)) 0 ds"

text \<open>
  \<open>parseInt(s, 10)\<close>: leading white space is skipped, one sign is read, then the longest
  prefix of decimal digits; no digit gives \<open>NaN\<close>.
\<close>

definition parseInt :: "string \<Rightarrow> int option" where
  "parseInt s =
     (let t = dropWhile isWhite s;
          neg = (t \<noteq> [] \<and> hd t = CHR ''-'');
          u = (if t \<noteq> [] \<and> (hd t = CHR ''-'' \<or> hd t = CHR ''+'') then tl t else t);
          ds = takeWhile isDigit u
      in if ds = [] then None
         else Some (if neg then - int (digitsValue ds) else int (digitsValue ds)))"

text \<open>The relational comparison \<open>a < b\<close> of two strings, by code units.\<close>

fun stringLess :: "string \<Rightarrow> string \<Rightarrow> bool" where
  "stringLess [] [] = False"
| "stringLess [] (y # ys) = True"
| "stringLess (x # xs) [] = False"
| "stringLess (x # xs) (y # ys) =
     (if (of_char x :: nat) < of_char y then True
      else if (of_char y :: nat) < of_char x then False
      else stringLess xs ys)"

text \<open>\<open>a >= b\<close> on strings is the negation of \<open>a < b\<close>.\<close>

definition stringGe :: "string \<Rightarrow> string \<Rightarrow> bool" where
  "stringGe a b = (\<not> stringLess a b)"

section \<open>The Date object\<close>

text \<open>
  A \<open>Date\<close> holds a time value: milliseconds since the epoch in UTC, or \<open>NaN\<close> for an
  invalid date. The functions below are the abstract operations of the language
  standard that the repository's code reaches through \<open>getFullYear\<close>, \<open>getMonth\<close>,
  \<open>getDate\<close>, \<open>setDate\<close>, \<open>new Date(y, m, d)\<close> and \<open>toISOString\<close>. The local time zone
  is a fixed offset \<open>tza\<close> in milliseconds (\<open>- 5 * msPerHour\<close> for UTC-5); daylight
  saving shifts are outside the model.
\<close>

type_synonym Date = "int option"

definition msPerDay :: int where "msPerDay = 86400000"
definition msPerHour :: int where "msPerHour = 3600000"
definition msPerMinute :: int where "msPerMinute = 60000"
definition msPerSecond :: int where "msPerSecond = 1000"

definition Day :: "int \<Rightarrow> int" where
  "Day t = t div msPerDay"

definition TimeWithinDay :: "int \<Rightarrow> int" where
  "TimeWithinDay t = t mod msPerDay"

definition DaysInYear :: "int \<Rightarrow> int" where
  "DaysInYear y = (if y mod 4 \<noteq> 0 then 365 else if y mod 100 \<noteq> 0 then 366
                   else if y mod 400 \<noteq> 0 then 365 else 366)"

definition DayFromYear :: "int \<Rightarrow> int" where
  "DayFromYear y = 365 * (y - 1970) + (y - 1969) div 4 - (y - 1901) div 100 + (y - 1601) div 400"

text \<open>
  The year of a day number: the largest \<open>y\<close> with \<open>DayFromYear y \<le> d\<close>, computed from
  the mean year length and corrected by at most one.
\<close>

definition YearFromDay :: "int \<Rightarrow> int" where
  "YearFromDay d =
     (let y = 1970 + (400 * d) div 146097
      in if DayFromYear (y + 1) \<le> d then y + 1 else if d < DayFromYear y then y - 1 else y)"

definition YearFromTime :: "int \<Rightarrow> int" where
  "YearFromTime t = YearFromDay (Day t)"

definition InLeapYear :: "int \<Rightarrow> int" where
  "InLeapYear t = (if DaysInYear (YearFromTime t) = 366 then 1 else 0)"

definition DayWithinYear :: "int \<Rightarrow> int" where
  "DayWithinYear t = Day t - DayFromYear (YearFromTime t)"

definition MonthFromTime :: "int \<Rightarrow> int" where
  "MonthFromTime t =
     (let d = DayWithinYear t; l = InLeapYear t
      in if d < 31 then 0 else if d < 59 + l then 1 else if d < 90 + l then 2
         else if d < 120 + l then 3 else if d < 151 + l then 4 else if d < 181 + l then 5
         else if d < 212 + l then 6 else if d < 243 + l then 7 else if d < 273 + l then 8
         else if d < 304 + l then 9 else if d < 334 + l then 10 else 11)"

definition DateFromTime :: "int \<Rightarrow> int" where
  "DateFromTime t =
     (let d = DayWithinYear t; l = InLeapYear t; m = MonthFromTime t
      in if m = 0 then d + 1 else if m = 1 then d - 30 else if m = 2 then d - 58 - l
         else if m = 3 then d - 89 - l else if m = 4 then d - 119 - l
         else if m = 5 then d - 150 - l else if m = 6 then d - 180 - l
         else if m = 7 then d - 211 - l else if m = 8 then d - 242 - l
         else if m = 9 then d - 272 - l else if m = 10 then d - 303 - l else d - 333 - l)"

definition HourFromTime :: "int \<Rightarrow> int" where
  "HourFromTime t = (t div msPerHour) mod 24"

definition MinFromTime :: "int \<Rightarrow> int" where
  "MinFromTime t = (t div msPerMinute) mod 60"

definition SecFromTime :: "int \<Rightarrow> int" where
  "SecFromTime t = (t div msPerSecond) mod 60"

definition msFromTime :: "int \<Rightarrow> int" where
  "msFromTime t = t mod msPerSecond"

text \<open>The day number of the first day of month \<open>mn\<close> (0 to 11) of year \<open>ym\<close>.\<close>

definition monthStart :: "int \<Rightarrow> int \<Rightarrow> int" where
  "monthStart ym mn =
     (let l = (if DaysInYear ym = 366 then 1 else 0)
      in DayFromYear ym +
         (if mn = 0 then 0 else if mn = 1 then 31 else if mn = 2 then 59 + l
          else if mn = 3 then 90 + l else if mn = 4 then 120 + l else if mn = 5 then 151 + l
          else if mn = 6 then 181 + l else if mn = 7 then 212 + l else if mn = 8 then 243 + l
          else if mn = 9 then 273 + l else if mn = 10 then 304 + l else 334 + l))"

definition MakeDay :: "int \<Rightarrow> int \<Rightarrow> int \<Rightarrow> int" where
  "MakeDay year month date = monthStart (year + month div 12) (month mod 12) + date - 1"

definition MakeTime :: "int \<Rightarrow> int \<Rightarrow> int \<Rightarrow> int \<Rightarrow> int" where
  "MakeTime hour minute sec ms = hour * msPerHour + minute * msPerMinute + sec * msPerSecond + ms"

definition MakeDate :: "int \<Rightarrow> int \<Rightarrow> int" where
  "MakeDate day time = day * msPerDay + time"

definition LocalTime :: "int \<Rightarrow> int \<Rightarrow> int" where
  "LocalTime tza t = t + tza"

definition UTC :: "int \<Rightarrow> int \<Rightarrow> int" where
  "UTC tza t = t - tza"

definition TimeClip :: "int \<Rightarrow> Date" where
  "TimeClip t = (if \<bar>t\<bar> > 8640000000000000 then None else Some t)"

text \<open>\<open>new Date(year, month, day)\<close>: a year from 0 to 99 means 1900 + year.\<close>

definition newDate :: "int \<Rightarrow> int option \<Rightarrow> int option \<Rightarrow> int option \<Rightarrow> Date" where
  "newDate tza year month day =
     (case (year, month, day) of
        (Some y, Some m, Some dt) \<Rightarrow>
          (let yr = (if 0 \<le> y \<and> y \<le> 99 then 1900 + y else y)
           in TimeClip (UTC tza (MakeDate (MakeDay yr m dt) (MakeTime 0 0 0 0))))
      | _ \<Rightarrow> None)"

definition getFullYear :: "int \<Rightarrow> Date \<Rightarrow> int option" where
  "getFullYear tza d = map_option (\<lambda>t. YearFromTime (LocalTime tza t)) d"

definition getMonth :: "int \<Rightarrow> Date \<Rightarrow> int option" where
  "getMonth tza d = map_option (\<lambda>t. MonthFromTime (LocalTime tza t)) d"

definition getDate :: "int \<Rightarrow> Date \<Rightarrow> int option" where
  "getDate tza d = map_option (\<lambda>t. DateFromTime (LocalTime tza t)) d"

text \<open>\<open>d.setDate(dt)\<close>, returning the date object's new value.\<close>

definition setDate :: "int \<Rightarrow> Date \<Rightarrow> int option \<Rightarrow> Date" where
  "setDate tza d dt =
     (case (d, dt) of
        (Some u, Some n) \<Rightarrow>
          (let t = LocalTime tza u
           in TimeClip (UTC tza (MakeDate (MakeDay (YearFromTime t) (MonthFromTime t) n)
                                   (TimeWithinDay t))))
      | _ \<Rightarrow> None)"

text \<open>
  \<open>toISOString\<close> of a valid time value, in UTC: the year has four digits from 0 to 9999
  and a sign with six digits otherwise. The code calls it on \<open>new Date()\<close> only, which
  is never invalid.
\<close>

definition isoYear :: "int \<Rightarrow> string" where
  "isoYear y = (if 0 \<le> y \<and> y \<le> 9999 then padStart 4 CHR ''0'' (natToString (nat y))
                else (if y < 0 then CHR ''-'' else CHR ''+'') # padStart 6 CHR ''0'' (natToString (nat \<bar>y\<bar>)))"

definition pad2 :: "int \<Rightarrow> string" where
  "pad2 n = padStart 2 CHR ''0'' (numberToString (Some n))"

definition toISOString :: "int \<Rightarrow> string" where
  "toISOString t =
     isoYear (YearFromTime t) @ ''-'' @ pad2 (MonthFromTime t + 1) @ ''-'' @ pad2 (DateFromTime t)
     @ ''T'' @ pad2 (HourFromTime t) @ '':'' @ pad2 (MinFromTime t) @ '':'' @ pad2 (SecFromTime t)
     @ ''.'' @ padStart 3 CHR ''0'' (numberToString (Some (msFromTime t))) @ ''Z''"

section \<open>Date utilities (src/lib/date.ts)\<close>

text \<open>\<open>n + 1\<close> on a number that may be \<open>NaN\<close>.\<close>

definition plusOne :: "int option \<Rightarrow> int option" where
  "plusOne x = map_option (\<lambda>n. n + 1) x"

definition getLocalDate :: "int \<Rightarrow> Date \<Rightarrow> string" where
  "getLocalDate tza date =
     (let year = getFullYear tza date;
          month = padStart 2 CHR ''0'' (numberToString (plusOne (getMonth tza date)));
          day = padStart 2 CHR ''0'' (numberToString (getDate tza date))
      in numberToString year @ ''-'' @ month @ ''-'' @ day)"

text \<open>
  \<open>parseLocalDate\<close>. The clock \<open>now\<close> stands for \<open>new Date()\<close>; \<open>fromString\<close> is the
  engine's \<open>new Date(dateStr)\<close>, reached when the string does not split into three
  parts.
\<close>

definition parseLocalDate :: "int \<Rightarrow> int \<Rightarrow> (string \<Rightarrow> Date) \<Rightarrow> string \<Rightarrow> Date" where
  "parseLocalDate tza now fromString dateStr =
     (if dateStr = [] then Some now
      else let parts = split CHR ''-'' (hd (split CHR ''T'' dateStr))
           in if length parts = 3
              then (let year = parseInt (parts ! 0);
                        month = map_option (\<lambda>n. n - 1) (parseInt (parts ! 1));
                        day = parseInt (parts ! 2)
                    in newDate tza year month day)
              else fromString dateStr)"

text \<open>A date-string constructor that rejects every string, for closed examples.\<close>

definition invalidDate :: "string \<Rightarrow> Date" where
  "invalidDate s = None"

section \<open>Records (src/lib/types.ts)\<close>

text \<open>
  One record per interface. String-literal union types (\<open>Category\<close>, \<open>Urgency\<close>,
  \<open>TodoStatus\<close>, ...) are strings at run time and are kept as \<open>string\<close>. The trace date
  is declared \<open>string\<close>, but every save path guards against a missing one
  (\<open>x.traceDate || ...\<close>), so it is optional here: \<open>None\<close> is \<open>undefined\<close>.
  The amount of an expense is carried through unchanged and is an integer here.
\<close>

record DailyEntry =
  de_id :: string
  de_date :: string
  de_workedOn :: string
  de_shipped :: string
  de_traceDate :: "string option"
  de_pinned :: "bool option"
  de_position :: "int option"

record Idea =
  idea_id :: string
  idea_date :: string
  idea_thought :: string
  idea_category :: string
  idea_urgency :: string
  idea_status :: string
  idea_platform :: "string option"
  idea_executed :: "bool option"
  idea_pinned :: "bool option"
  idea_traceDate :: "string option"

record WeeklyOutcome =
  wo_id :: string
  wo_weekStarting :: string
  wo_build :: string
  wo_ship :: string
  wo_learn :: string
  wo_status :: string
  wo_reviewGenerated :: "bool option"
  wo_traceDate :: "string option"

record Todo =
  todo_id :: string
  todo_title :: string
  todo_details :: string
  todo_deadline :: string
  todo_priority :: string
  todo_status :: string
  todo_completed :: bool
  todo_createdAt :: string
  todo_traceDate :: "string option"
  todo_timeSlot :: "string option"
  todo_targetTime :: "string option"
  todo_pinned :: "bool option"
  todo_completedAt :: "string option"

record DecisionGate =
  dg_id :: string
  dg_date :: string
  dg_decision :: string
  dg_outcome :: string
  dg_status :: string
  dg_traceDate :: "string option"

record Contact =
  ct_id :: string
  ct_name :: string
  ct_company :: string
  ct_email :: string
  ct_linkedin :: string
  ct_xAccount :: string
  ct_notes :: string
  ct_dateAdded :: string
  ct_traceDate :: "string option"
  ct_avatarUrl :: "string option"

record Discovery =
  disc_id :: string
  disc_title :: string
  disc_url :: string
  disc_description :: string
  disc_category :: string
  disc_impact :: string
  disc_dateAdded :: string
  disc_traceDate :: "string option"
  disc_pinned :: "bool option"

record Expense =
  exp_id :: string
  exp_title :: string
  exp_amount :: int
  exp_category :: string
  exp_date :: string
  exp_createdAt :: string
  exp_traceDate :: "string option"

section \<open>The backend client and the local cache (src/lib/store.ts)\<close>

text \<open>
  A row sent to or read from the backend is an object literal: column names with
  values, in the order the source writes them.
\<close>

datatype jsval = Str string | Num int | Bool bool | Undefined | Null

type_synonym row = "(string \<times> jsval) list"

definition optStr :: "string option \<Rightarrow> jsval" where
  "optStr x = (case x of None \<Rightarrow> Undefined | Some s \<Rightarrow> Str s)"

definition optBool :: "bool option \<Rightarrow> jsval" where
  "optBool x = (case x of None \<Rightarrow> Undefined | Some b \<Rightarrow> Bool b)"

text \<open>Reading a column of a row: a missing column reads as \<open>undefined\<close>.\<close>

definition col :: "row \<Rightarrow> string \<Rightarrow> jsval" where
  "col r c = (case map_of r c of None \<Rightarrow> Undefined | Some v \<Rightarrow> v)"

definition truthy :: "jsval \<Rightarrow> bool" where
  "truthy v = (case v of Str s \<Rightarrow> s \<noteq> [] | Num n \<Rightarrow> n \<noteq> 0 | Bool b \<Rightarrow> b
                | Undefined \<Rightarrow> False | Null \<Rightarrow> False)"

text \<open>\<open>a || b\<close> on values.\<close>

definition jsOr :: "jsval \<Rightarrow> jsval \<Rightarrow> jsval" where
  "jsOr a b = (if truthy a then a else b)"

text \<open>
  A column value taken at its declared type. The backend's schema is not part of the
  repository; a value of another type reads as the type's empty value.
\<close>

definition asString :: "jsval \<Rightarrow> string" where
  "asString v = (case v of Str s \<Rightarrow> s | _ \<Rightarrow> [])"

definition asOptString :: "jsval \<Rightarrow> string option" where
  "asOptString v = (case v of Str s \<Rightarrow> Some s | _ \<Rightarrow> None)"

definition asBool :: "jsval \<Rightarrow> bool" where
  "asBool v = (case v of Bool b \<Rightarrow> b | _ \<Rightarrow> False)"

definition asOptBool :: "jsval \<Rightarrow> bool option" where
  "asOptBool v = (case v of Bool b \<Rightarrow> Some b | _ \<Rightarrow> None)"

definition asNumber :: "jsval \<Rightarrow> int" where
  "asNumber v = (case v of Num n \<Rightarrow> n | _ \<Rightarrow> 0)"

text \<open>
  The requests of the query builder: \<open>from(t).select('*').order(c, {ascending})...\<close>,
  \<open>from(t).insert(row)\<close>, \<open>from(t).update(row).eq('id', id)\<close> and
  \<open>from(t).delete().eq('id', id)\<close>. A response is the pair \<open>{data, error}\<close>.
\<close>

datatype request =
    Select string "(string \<times> bool) list"
  | Insert string row
  | Update string row string
  | Delete string string

record response =
  data :: "row list option"
  error :: "string option"

text \<open>
  A cache key of \<open>localStorage\<close>: missing, holding text that does not parse, or holding
  the serialised list last written. Writing is taken to succeed, and serialising and
  parsing a list of records to give the list back.
\<close>

datatype 'a slot = Absent | Unparsable | Stored "'a list"

definition updateCache :: "'a list \<Rightarrow> 'a slot" where
  "updateCache xs = Stored xs"

definition getCache :: "'a slot \<Rightarrow> 'a list" where
  "getCache c = (case c of Absent \<Rightarrow> [] | Unparsable \<Rightarrow> [] | Stored xs \<Rightarrow> xs)"

text \<open>
  The state a call of the storage module works on: the eight cache keys, the rate
  limiter, the backend, the clock read by \<open>new Date()\<close>, and the list of requests sent
  so far with their responses. A call is modelled run to completion, with no other
  call interleaved at its \<open>await\<close>.
\<close>

record ('l, 'b) state =
  DAILY :: "DailyEntry slot"
  IDEAS :: "Idea slot"
  WEEKLY :: "WeeklyOutcome slot"
  TODOS :: "Todo slot"
  DECISIONS :: "DecisionGate slot"
  CONTACTS :: "Contact slot"
  DISCOVERIES :: "Discovery slot"
  EXPENSES :: "Expense slot"
  limiter :: 'l
  remote :: 'b
  clock :: int
  sent :: "(request \<times> response) list"

text \<open>
  What the module imports and the source does not contain: the sanitizers and the rate
  limiter of \<open>./security\<close>, the configuration check and the client of \<open>./supabase\<close>;
  with them the time zone and the engine's date-string constructor.
\<close>

record ('l, 'b) env =
  localTZA :: int
  dateFromString :: "string \<Rightarrow> Date"
  sanitizeText :: "string \<Rightarrow> string"
  sanitizeUrl :: "string \<Rightarrow> string"
  sanitizeEmail :: "string \<Rightarrow> string"
  canMakeRequest :: "'l \<Rightarrow> int \<Rightarrow> bool \<times> 'l"
  isSupabaseConfigured :: bool
  supabase :: "'b \<Rightarrow> request \<Rightarrow> response \<times> 'b"

definition checkRateLimit :: "('l, 'b) env \<Rightarrow> ('l, 'b) state \<Rightarrow> bool \<times> ('l, 'b) state" where
  "checkRateLimit env s =
     (let (ok, l) = canMakeRequest env (limiter s) (clock s) in (ok, s\<lparr>limiter := l\<rparr>))"

definition ensureConfigured :: "('l, 'b) env \<Rightarrow> bool" where
  "ensureConfigured env = isSupabaseConfigured env"

text \<open>
  The guard \<open>if (!checkRateLimit() || !ensureConfigured()) return\<close>: the limiter is asked
  first and the configuration only when it allows the request.
\<close>

definition guard :: "('l, 'b) env \<Rightarrow> ('l, 'b) state \<Rightarrow> bool \<times> ('l, 'b) state" where
  "guard env s =
     (let (ok, s1) = checkRateLimit env s
      in if \<not> ok then (False, s1) else if \<not> ensureConfigured env then (False, s1) else (True, s1))"

text \<open>Awaiting a request: the backend answers and the exchange is recorded.\<close>

definition await :: "('l, 'b) env \<Rightarrow> request \<Rightarrow> ('l, 'b) state \<Rightarrow> response \<times> ('l, 'b) state" where
  "await env q s =
     (let (r, b) = supabase env (remote s) q in (r, s\<lparr>remote := b, sent := sent s @ [(q, r)]\<rparr>))"

text \<open>\<open>getLocalDate()\<close> with no argument reads the clock.\<close>

definition today :: "('l, 'b) env \<Rightarrow> ('l, 'b) state \<Rightarrow> string" where
  "today env s = getLocalDate (localTZA env) (Some (clock s))"

subsection \<open>Daily entries\<close>

definition getDailyEntries :: "('l, 'b) state \<Rightarrow> DailyEntry list" where
  "getDailyEntries s = getCache (DAILY s)"

definition dailyEntryOfRow :: "row \<Rightarrow> DailyEntry" where
  "dailyEntryOfRow r =
     \<lparr> de_id = asString (col r ''id''),
       de_date = asString (col r ''date''),
       de_workedOn = asString (col r ''worked_on''),
       de_shipped = asString (col r ''shipped''),
       de_traceDate = asOptString (jsOr (col r ''trace_date'') (col r ''date'')),
       de_pinned = Some (asBool (jsOr (col r ''pinned'') (Bool False))),
       de_position = Some (asNumber (jsOr (col r ''position'') (Num 0))) \<rparr>"

definition fetchDailyEntries ::
  "('l, 'b) env \<Rightarrow> ('l, 'b) state \<Rightarrow> DailyEntry list \<times> ('l, 'b) state" where
  "fetchDailyEntries env s =
     (if \<not> ensureConfigured env then (getCache (DAILY s), s)
      else
        let (first, s1) = await env (Select ''daily_entries''
                [(''pinned'', False), (''position'', True), (''trace_date'', False)]) s;
            (res, s2) = (if error first \<noteq> None
                         then await env (Select ''daily_entries'' [(''trace_date'', False)]) s1
                         else (first, s1))
        in if error res \<noteq> None then (getCache (DAILY s2), s2)
           else let entries = map dailyEntryOfRow (case data res of None \<Rightarrow> [] | Some rows \<Rightarrow> rows)
                in (entries, s2\<lparr>DAILY := updateCache entries\<rparr>))"

definition saveDailyEntry :: "('l, 'b) env \<Rightarrow> DailyEntry \<Rightarrow> ('l, 'b) state \<Rightarrow> ('l, 'b) state" where
  "saveDailyEntry env entry s =
     (let (ok, s1) = guard env s
      in if \<not> ok then s1
         else
           let traceDate = orElse (de_traceDate entry) (today env s1);
               sanitizedEntry = entry\<lparr> de_workedOn := sanitizeText env (de_workedOn entry),
                                       de_shipped := sanitizeText env (de_shipped entry),
                                       de_traceDate := Some traceDate \<rparr>;
               previousCache = getDailyEntries s1;
               s2 = s1\<lparr>DAILY := updateCache (sanitizedEntry # previousCache)\<rparr>;
               (res, s3) = await env (Insert ''daily_entries''
                  [(''id'', Str (de_id sanitizedEntry)),
                   (''date'', Str (de_date sanitizedEntry)),
                   (''worked_on'', Str (de_workedOn sanitizedEntry)),
                   (''shipped'', Str (de_shipped sanitizedEntry)),
                   (''trace_date'', optStr (de_traceDate sanitizedEntry)),
                   (''pinned'', Bool (orFalse (de_pinned sanitizedEntry))),
                   (''position'', Num (orZero (de_position sanitizedEntry)))]) s2
           in if error res \<noteq> None
              then (let (retry, s4) = await env (Insert ''daily_entries''
                          [(''id'', Str (de_id sanitizedEntry)),
                           (''date'', Str (de_date sanitizedEntry)),
                           (''worked_on'', Str (de_workedOn sanitizedEntry)),
                           (''shipped'', Str (de_shipped sanitizedEntry)),
                           (''trace_date'', optStr (de_traceDate sanitizedEntry))]) s3
                    in if error retry \<noteq> None then s4\<lparr>DAILY := updateCache previousCache\<rparr> else s4)
              else s3)"

definition updateDailyEntry :: "('l, 'b) env \<Rightarrow> DailyEntry \<Rightarrow> ('l, 'b) state \<Rightarrow> ('l, 'b) state" where
  "updateDailyEntry env updatedEntry s =
     (let (ok, s1) = guard env s
      in if \<not> ok then s1
         else
           let previousCache = getDailyEntries s1;
               updatedCache = map (\<lambda>e. if de_id e = de_id updatedEntry then updatedEntry else e) previousCache;
               s2 = s1\<lparr>DAILY := updateCache updatedCache\<rparr>;
               (res, s3) = await env (Update ''daily_entries''
                  [(''date'', Str (de_date updatedEntry)),
                   (''worked_on'', Str (sanitizeText env (de_workedOn updatedEntry))),
                   (''shipped'', Str (sanitizeText env (de_shipped updatedEntry))),
                   (''trace_date'', optStr (de_traceDate updatedEntry)),
                   (''pinned'', Bool (orFalse (de_pinned updatedEntry))),
                   (''position'', Num (orZero (de_position updatedEntry)))]
                  (de_id updatedEntry)) s2
           in if error res \<noteq> None
              then (let (retry, s4) = await env (Update ''daily_entries''
                          [(''date'', Str (de_date updatedEntry)),
                           (''worked_on'', Str (sanitizeText env (de_workedOn updatedEntry))),
                           (''shipped'', Str (sanitizeText env (de_shipped updatedEntry))),
                           (''trace_date'', optStr (de_traceDate updatedEntry))]
                          (de_id updatedEntry)) s3
                    in if error retry \<noteq> None then s4\<lparr>DAILY := updateCache previousCache\<rparr> else s4)
              else s3)"

definition deleteDailyEntry :: "('l, 'b) env \<Rightarrow> string \<Rightarrow> ('l, 'b) state \<Rightarrow> ('l, 'b) state" where
  "deleteDailyEntry env ident s =
     (let (ok, s1) = guard env s
      in if \<not> ok then s1
         else
           let previousCache = getDailyEntries s1;
               s2 = s1\<lparr>DAILY := updateCache (filter (\<lambda>e. de_id e \<noteq> ident) previousCache)\<rparr>;
               (res, s3) = await env (Delete ''daily_entries'' ident) s2
           in if error res \<noteq> None then s3\<lparr>DAILY := updateCache previousCache\<rparr> else s3)"

subsection \<open>Ideas\<close>

definition getIdeas :: "('l, 'b) state \<Rightarrow> Idea list" where
  "getIdeas s = getCache (IDEAS s)"

definition ideaOfRow :: "row \<Rightarrow> Idea" where
  "ideaOfRow r =
     \<lparr> idea_id = asString (col r ''id''),
       idea_date = asString (col r ''date''),
       idea_thought = asString (col r ''thought''),
       idea_category = asString (col r ''category''),
       idea_urgency = asString (col r ''urgency''),
       idea_status = asString (col r ''status''),
       idea_platform = asOptString (col r ''platform''),
       idea_executed = Some (asBool (jsOr (col r ''executed'') (Bool False))),
       idea_pinned = Some (asBool (jsOr (col r ''pinned'') (Bool False))),
       idea_traceDate = asOptString (jsOr (col r ''trace_date'') (col r ''date'')) \<rparr>"

text \<open>
  The \<open>try\<close> around the body of \<open>fetchIdeas\<close> catches a rejected request and returns the
  cache; the backend of the model answers every request, so that branch has no state
  of its own.
\<close>

definition fetchIdeas :: "('l, 'b) env \<Rightarrow> ('l, 'b) state \<Rightarrow> Idea list \<times> ('l, 'b) state" where
  "fetchIdeas env s =
     (if \<not> ensureConfigured env then (getCache (IDEAS s), s)
      else
        let (res, s1) = await env (Select ''ideas'' [(''trace_date'', False)]) s
        in if error res \<noteq> None then (getCache (IDEAS s1), s1)
           else let ideas = map ideaOfRow (case data res of None \<Rightarrow> [] | Some rows \<Rightarrow> rows)
                in (ideas, s1\<lparr>IDEAS := updateCache ideas\<rparr>))"

definition saveIdea :: "('l, 'b) env \<Rightarrow> Idea \<Rightarrow> ('l, 'b) state \<Rightarrow> ('l, 'b) state" where
  "saveIdea env idea s =
     (let (ok, s1) = guard env s
      in if \<not> ok then s1
         else
           let traceDate = orElse (idea_traceDate idea) (today env s1);
               sanitizedIdea = idea\<lparr> idea_thought := sanitizeText env (idea_thought idea),
                                     idea_traceDate := Some traceDate \<rparr>;
               previousCache = getIdeas s1;
               s2 = s1\<lparr>IDEAS := updateCache (sanitizedIdea # previousCache)\<rparr>;
               (res, s3) = await env (Insert ''ideas''
                  [(''id'', Str (idea_id sanitizedIdea)),
                   (''date'', Str (idea_date sanitizedIdea)),
                   (''thought'', Str (idea_thought sanitizedIdea)),
                   (''category'', Str (idea_category sanitizedIdea)),
                   (''urgency'', Str (idea_urgency sanitizedIdea)),
                   (''status'', Str (idea_status sanitizedIdea)),
                   (''platform'', optStr (idea_platform sanitizedIdea)),
                   (''executed'', Bool (orFalse (idea_executed sanitizedIdea))),
                   (''pinned'', Bool (orFalse (idea_pinned sanitizedIdea))),
                   (''trace_date'', optStr (idea_traceDate sanitizedIdea))]) s2
           in if error res \<noteq> None then s3\<lparr>IDEAS := updateCache previousCache\<rparr> else s3)"

definition updateIdea :: "('l, 'b) env \<Rightarrow> Idea \<Rightarrow> ('l, 'b) state \<Rightarrow> ('l, 'b) state" where
  "updateIdea env updatedIdea s =
     (let (ok, s1) = guard env s
      in if \<not> ok then s1
         else
           let previousCache = getIdeas s1;
               updatedCache = map (\<lambda>i. if idea_id i = idea_id updatedIdea then updatedIdea else i) previousCache;
               s2 = s1\<lparr>IDEAS := updateCache updatedCache\<rparr>;
               (res, s3) = await env (Update ''ideas''
                  [(''date'', Str (idea_date updatedIdea)),
                   (''thought'', Str (sanitizeText env (idea_thought updatedIdea))),
                   (''category'', Str (idea_category updatedIdea)),
                   (''urgency'', Str (idea_urgency updatedIdea)),
                   (''status'', Str (idea_status updatedIdea)),
                   (''platform'', optStr (idea_platform updatedIdea)),
                   (''executed'', Bool (orFalse (idea_executed updatedIdea))),
                   (''pinned'', Bool (orFalse (idea_pinned updatedIdea))),
                   (''trace_date'', optStr (idea_traceDate updatedIdea))]
                  (idea_id updatedIdea)) s2
           in if error res \<noteq> None then s3\<lparr>IDEAS := updateCache previousCache\<rparr> else s3)"

definition deleteIdea :: "('l, 'b) env \<Rightarrow> string \<Rightarrow> ('l, 'b) state \<Rightarrow> ('l, 'b) state" where
  "deleteIdea env ident s =
     (let (ok, s1) = guard env s
      in if \<not> ok then s1
         else
           let previousCache = getIdeas s1;
               s2 = s1\<lparr>IDEAS := updateCache (filter (\<lambda>i. idea_id i \<noteq> ident) previousCache)\<rparr>;
               (res, s3) = await env (Delete ''ideas'' ident) s2
           in if error res \<noteq> None then s3\<lparr>IDEAS := updateCache previousCache\<rparr> else s3)"

subsection \<open>Weekly outcomes\<close>

definition getWeeklyOutcomes :: "('l, 'b) state \<Rightarrow> WeeklyOutcome list" where
  "getWeeklyOutcomes s = getCache (WEEKLY s)"

definition weeklyOutcomeOfRow :: "row \<Rightarrow> WeeklyOutcome" where
  "weeklyOutcomeOfRow r =
     \<lparr> wo_id = asString (col r ''id''),
       wo_weekStarting = asString (col r ''week_starting''),
       wo_build = asString (col r ''build''),
       wo_ship = asString (col r ''ship''),
       wo_learn = asString (col r ''learn''),
       wo_status = asString (col r ''status''),
       wo_reviewGenerated = asOptBool (col r ''review_generated''),
       wo_traceDate = asOptString (jsOr (col r ''trace_date'') (col r ''week_starting'')) \<rparr>"

definition fetchWeeklyOutcomes ::
  "('l, 'b) env \<Rightarrow> ('l, 'b) state \<Rightarrow> WeeklyOutcome list \<times> ('l, 'b) state" where
  "fetchWeeklyOutcomes env s =
     (if \<not> ensureConfigured env then (getCache (WEEKLY s), s)
      else
        let (res, s1) = await env (Select ''weekly_outcomes'' [(''trace_date'', False)]) s
        in if error res \<noteq> None then (getCache (WEEKLY s1), s1)
           else let outcomes = map weeklyOutcomeOfRow (case data res of None \<Rightarrow> [] | Some rows \<Rightarrow> rows)
                in (outcomes, s1\<lparr>WEEKLY := updateCache outcomes\<rparr>))"

definition saveWeeklyOutcome ::
  "('l, 'b) env \<Rightarrow> WeeklyOutcome \<Rightarrow> ('l, 'b) state \<Rightarrow> ('l, 'b) state" where
  "saveWeeklyOutcome env outcome s =
     (let (ok, s1) = guard env s
      in if \<not> ok then s1
         else
           let traceDate = orElse (wo_traceDate outcome) (today env s1);
               sanitizedOutcome = outcome\<lparr> wo_build := sanitizeText env (wo_build outcome),
                                           wo_ship := sanitizeText env (wo_ship outcome),
                                           wo_learn := sanitizeText env (wo_learn outcome),
                                           wo_traceDate := Some traceDate \<rparr>;
               previousCache = getWeeklyOutcomes s1;
               s2 = s1\<lparr>WEEKLY := updateCache (sanitizedOutcome # previousCache)\<rparr>;
               (res, s3) = await env (Insert ''weekly_outcomes''
                  [(''id'', Str (wo_id sanitizedOutcome)),
                   (''week_starting'', Str (wo_weekStarting sanitizedOutcome)),
                   (''build'', Str (wo_build sanitizedOutcome)),
                   (''ship'', Str (wo_ship sanitizedOutcome)),
                   (''learn'', Str (wo_learn sanitizedOutcome)),
                   (''status'', Str (wo_status sanitizedOutcome)),
                   (''review_generated'', Bool (orFalse (wo_reviewGenerated sanitizedOutcome))),
                   (''trace_date'', optStr (wo_traceDate sanitizedOutcome))]) s2
           in if error res \<noteq> None then s3\<lparr>WEEKLY := updateCache previousCache\<rparr> else s3)"

definition updateWeeklyOutcome ::
  "('l, 'b) env \<Rightarrow> WeeklyOutcome \<Rightarrow> ('l, 'b) state \<Rightarrow> ('l, 'b) state" where
  "updateWeeklyOutcome env updated s =
     (let (ok, s1) = guard env s
      in if \<not> ok then s1
         else
           let previousCache = getWeeklyOutcomes s1;
               updatedCache = map (\<lambda>w. if wo_id w = wo_id updated then updated else w) previousCache;
               s2 = s1\<lparr>WEEKLY := updateCache updatedCache\<rparr>;
               (res, s3) = await env (Update ''weekly_outcomes''
                  [(''week_starting'', Str (wo_weekStarting updated)),
                   (''build'', Str (sanitizeText env (wo_build updated))),
                   (''ship'', Str (sanitizeText env (wo_ship updated))),
                   (''learn'', Str (sanitizeText env (wo_learn updated))),
                   (''status'', Str (wo_status updated)),
                   (''review_generated'', optBool (wo_reviewGenerated updated)),
                   (''trace_date'', optStr (wo_traceDate updated))]
                  (wo_id updated)) s2
           in if error res \<noteq> None then s3\<lparr>WEEKLY := updateCache previousCache\<rparr> else s3)"

definition deleteWeeklyOutcome :: "('l, 'b) env \<Rightarrow> string \<Rightarrow> ('l, 'b) state \<Rightarrow> ('l, 'b) state" where
  "deleteWeeklyOutcome env ident s =
     (let (ok, s1) = guard env s
      in if \<not> ok then s1
         else
           let previousCache = getWeeklyOutcomes s1;
               s2 = s1\<lparr>WEEKLY := updateCache (filter (\<lambda>w. wo_id w \<noteq> ident) previousCache)\<rparr>;
               (res, s3) = await env (Delete ''weekly_outcomes'' ident) s2
           in if error res \<noteq> None then s3\<lparr>WEEKLY := updateCache previousCache\<rparr> else s3)"

subsection \<open>Todos\<close>

definition getTodos :: "('l, 'b) state \<Rightarrow> Todo list" where
  "getTodos s = getCache (TODOS s)"

definition todoOfRow :: "('l, 'b) env \<Rightarrow> ('l, 'b) state \<Rightarrow> row \<Rightarrow> Todo" where
  "todoOfRow env s r =
     \<lparr> todo_id = asString (col r ''id''),
       todo_title = asString (col r ''title''),
       todo_details = asString (col r ''details''),
       todo_deadline = asString (col r ''deadline''),
       todo_priority = asString (col r ''priority''),
       todo_status = asString (col r ''status''),
       todo_completed = asBool (col r ''completed''),
       todo_createdAt = asString (col r ''created_at''),
       todo_traceDate = asOptString (jsOr (col r ''trace_date'')
          (Str (if truthy (col r ''created_at'')
                then getLocalDate (localTZA env) (dateFromString env (asString (col r ''created_at'')))
                else today env s))),
       todo_timeSlot = asOptString (col r ''time_slot''),
       todo_targetTime = asOptString (col r ''target_time''),
       todo_pinned = Some (asBool (jsOr (col r ''pinned'') (Bool False))),
       todo_completedAt = asOptString (col r ''completed_at'') \<rparr>"

definition fetchTodos :: "('l, 'b) env \<Rightarrow> ('l, 'b) state \<Rightarrow> Todo list \<times> ('l, 'b) state" where
  "fetchTodos env s =
     (if \<not> ensureConfigured env then (getCache (TODOS s), s)
      else
        let (res, s1) = await env (Select ''todos'' [(''deadline'', True)]) s
        in if error res \<noteq> None then (getCache (TODOS s1), s1)
           else let todos = map (todoOfRow env s1) (case data res of None \<Rightarrow> [] | Some rows \<Rightarrow> rows)
                in (todos, s1\<lparr>TODOS := updateCache todos\<rparr>))"

definition saveTodo :: "('l, 'b) env \<Rightarrow> Todo \<Rightarrow> ('l, 'b) state \<Rightarrow> ('l, 'b) state" where
  "saveTodo env todo s =
     (let (ok, s1) = guard env s
      in if \<not> ok then s1
         else
           let traceDate = orElse (todo_traceDate todo) (today env s1);
               sanitizedTodo = todo\<lparr> todo_title := sanitizeText env (todo_title todo),
                                     todo_details := sanitizeText env (todo_details todo),
                                     todo_traceDate := Some traceDate \<rparr>;
               previousCache = getTodos s1;
               s2 = s1\<lparr>TODOS := updateCache (sanitizedTodo # previousCache)\<rparr>;
               (res, s3) = await env (Insert ''todos''
                  [(''id'', Str (todo_id sanitizedTodo)),
                   (''title'', Str (todo_title sanitizedTodo)),
                   (''details'', Str (todo_details sanitizedTodo)),
                   (''deadline'', Str (todo_deadline sanitizedTodo)),
                   (''priority'', Str (todo_priority sanitizedTodo)),
                   (''status'', Str (todo_status sanitizedTodo)),
                   (''completed'', Bool (todo_completed sanitizedTodo)),
                   (''created_at'', Str (todo_createdAt sanitizedTodo)),
                   (''trace_date'', optStr (todo_traceDate sanitizedTodo)),
                   (''time_slot'', optStr (todo_timeSlot sanitizedTodo)),
                   (''target_time'', optStr (todo_targetTime sanitizedTodo)),
                   (''pinned'', Bool (orFalse (todo_pinned sanitizedTodo))),
                   (''completed_at'', optStr (todo_completedAt sanitizedTodo))]) s2
           in if error res \<noteq> None then s3\<lparr>TODOS := updateCache previousCache\<rparr> else s3)"

definition updateTodo :: "('l, 'b) env \<Rightarrow> Todo \<Rightarrow> ('l, 'b) state \<Rightarrow> ('l, 'b) state" where
  "updateTodo env updated s =
     (let (ok, s1) = guard env s
      in if \<not> ok then s1
         else
           let previousCache = getTodos s1;
               updatedCache = map (\<lambda>t. if todo_id t = todo_id updated then updated else t) previousCache;
               s2 = s1\<lparr>TODOS := updateCache updatedCache\<rparr>;
               (res, s3) = await env (Update ''todos''
                  [(''title'', Str (sanitizeText env (todo_title updated))),
                   (''details'', Str (sanitizeText env (todo_details updated))),
                   (''deadline'', Str (todo_deadline updated)),
                   (''priority'', Str (todo_priority updated)),
                   (''status'', Str (todo_status updated)),
                   (''completed'', Bool (todo_completed updated)),
                   (''trace_date'', optStr (todo_traceDate updated)),
                   (''time_slot'', optStr (todo_timeSlot updated)),
                   (''target_time'', optStr (todo_targetTime updated)),
                   (''pinned'', Bool (orFalse (todo_pinned updated))),
                   (''completed_at'', optStr (todo_completedAt updated))]
                  (todo_id updated)) s2
           in if error res \<noteq> None then s3\<lparr>TODOS := updateCache previousCache\<rparr> else s3)"

definition deleteTodo :: "('l, 'b) env \<Rightarrow> string \<Rightarrow> ('l, 'b) state \<Rightarrow> ('l, 'b) state" where
  "deleteTodo env ident s =
     (let (ok, s1) = guard env s
      in if \<not> ok then s1
         else
           let previousCache = getTodos s1;
               s2 = s1\<lparr>TODOS := updateCache (filter (\<lambda>t. todo_id t \<noteq> ident) previousCache)\<rparr>;
               (res, s3) = await env (Delete ''todos'' ident) s2
           in if error res \<noteq> None then s3\<lparr>TODOS := updateCache previousCache\<rparr> else s3)"

subsection \<open>Decisions\<close>

definition getDecisions :: "('l, 'b) state \<Rightarrow> DecisionGate list" where
  "getDecisions s = getCache (DECISIONS s)"

definition decisionOfRow :: "row \<Rightarrow> DecisionGate" where
  "decisionOfRow r =
     \<lparr> dg_id = asString (col r ''id''),
       dg_date = asString (col r ''date''),
       dg_decision = asString (jsOr (col r ''decision'') (col r ''project_title'')),
       dg_outcome = asString (if col r ''status'' = Str ''Decided''
                              then jsOr (col r ''outcome'') (col r ''result'')
                              else jsOr (col r ''outcome'') (Str [])),
       dg_status = asString (jsOr (col r ''status'')
                      (if col r ''result'' = Str ''Approved'' then Str ''Decided'' else Str ''Pending'')),
       dg_traceDate = asOptString (jsOr (col r ''trace_date'') (col r ''date'')) \<rparr>"

definition fetchDecisions ::
  "('l, 'b) env \<Rightarrow> ('l, 'b) state \<Rightarrow> DecisionGate list \<times> ('l, 'b) state" where
  "fetchDecisions env s =
     (if \<not> ensureConfigured env then (getCache (DECISIONS s), s)
      else
        let (res, s1) = await env (Select ''decision_gates'' [(''trace_date'', False)]) s
        in if error res \<noteq> None then (getCache (DECISIONS s1), s1)
           else let decisions = map decisionOfRow (case data res of None \<Rightarrow> [] | Some rows \<Rightarrow> rows)
                in (decisions, s1\<lparr>DECISIONS := updateCache decisions\<rparr>))"

definition saveDecision :: "('l, 'b) env \<Rightarrow> DecisionGate \<Rightarrow> ('l, 'b) state \<Rightarrow> ('l, 'b) state" where
  "saveDecision env decision s =
     (let (ok, s1) = guard env s
      in if \<not> ok then s1
         else
           let traceDate = orElse (dg_traceDate decision) (today env s1);
               sanitizedDecision = decision\<lparr> dg_decision := sanitizeText env (dg_decision decision),
                                             dg_outcome := sanitizeText env (dg_outcome decision),
                                             dg_traceDate := Some traceDate \<rparr>;
               previousCache = getDecisions s1;
               s2 = s1\<lparr>DECISIONS := updateCache (sanitizedDecision # previousCache)\<rparr>;
               (res, s3) = await env (Insert ''decision_gates''
                  [(''id'', Str (dg_id sanitizedDecision)),
                   (''date'', Str (dg_date sanitizedDecision)),
                   (''decision'', Str (dg_decision sanitizedDecision)),
                   (''outcome'', Str (dg_outcome sanitizedDecision)),
                   (''status'', Str (dg_status sanitizedDecision)),
                   (''trace_date'', optStr (dg_traceDate sanitizedDecision))]) s2
           in if error res \<noteq> None then s3\<lparr>DECISIONS := updateCache previousCache\<rparr> else s3)"

definition updateDecision :: "('l, 'b) env \<Rightarrow> DecisionGate \<Rightarrow> ('l, 'b) state \<Rightarrow> ('l, 'b) state" where
  "updateDecision env updated s =
     (let (ok, s1) = guard env s
      in if \<not> ok then s1
         else
           let previousCache = getDecisions s1;
               updatedCache = map (\<lambda>d. if dg_id d = dg_id updated then updated else d) previousCache;
               s2 = s1\<lparr>DECISIONS := updateCache updatedCache\<rparr>;
               (res, s3) = await env (Update ''decision_gates''
                  [(''decision'', Str (sanitizeText env (dg_decision updated))),
                   (''outcome'', Str (sanitizeText env (dg_outcome updated))),
                   (''status'', Str (dg_status updated)),
                   (''trace_date'', optStr (dg_traceDate updated))]
                  (dg_id updated)) s2
           in if error res \<noteq> None then s3\<lparr>DECISIONS := updateCache previousCache\<rparr> else s3)"

definition deleteDecision :: "('l, 'b) env \<Rightarrow> string \<Rightarrow> ('l, 'b) state \<Rightarrow> ('l, 'b) state" where
  "deleteDecision env ident s =
     (let (ok, s1) = guard env s
      in if \<not> ok then s1
         else
           let previousCache = getDecisions s1;
               s2 = s1\<lparr>DECISIONS := updateCache (filter (\<lambda>d. dg_id d \<noteq> ident) previousCache)\<rparr>;
               (res, s3) = await env (Delete ''decision_gates'' ident) s2
           in if error res \<noteq> None then s3\<lparr>DECISIONS := updateCache previousCache\<rparr> else s3)"

subsection \<open>Contacts\<close>

definition getContacts :: "('l, 'b) state \<Rightarrow> Contact list" where
  "getContacts s = getCache (CONTACTS s)"

definition contactOfRow :: "row \<Rightarrow> Contact" where
  "contactOfRow r =
     \<lparr> ct_id = asString (col r ''id''),
       ct_name = asString (col r ''name''),
       ct_company = asString (col r ''company''),
       ct_email = asString (col r ''email''),
       ct_linkedin = asString (col r ''linkedin''),
       ct_xAccount = asString (col r ''x_account''),
       ct_notes = asString (col r ''notes''),
       ct_dateAdded = asString (col r ''date_added''),
       ct_traceDate = asOptString (jsOr (col r ''trace_date'') (col r ''date_added'')),
       ct_avatarUrl = asOptString (col r ''avatar_url'') \<rparr>"

definition fetchContacts :: "('l, 'b) env \<Rightarrow> ('l, 'b) state \<Rightarrow> Contact list \<times> ('l, 'b) state" where
  "fetchContacts env s =
     (if \<not> ensureConfigured env then (getCache (CONTACTS s), s)
      else
        let (res, s1) = await env (Select ''contacts'' [(''trace_date'', False)]) s
        in if error res \<noteq> None then (getCache (CONTACTS s1), s1)
           else let contacts = map contactOfRow (case data res of None \<Rightarrow> [] | Some rows \<Rightarrow> rows)
                in (contacts, s1\<lparr>CONTACTS := updateCache contacts\<rparr>))"

definition saveContact :: "('l, 'b) env \<Rightarrow> Contact \<Rightarrow> ('l, 'b) state \<Rightarrow> ('l, 'b) state" where
  "saveContact env contact s =
     (let (ok, s1) = guard env s
      in if \<not> ok then s1
         else
           let traceDate = orElse (ct_traceDate contact) (today env s1);
               sanitizedContact = contact\<lparr> ct_name := sanitizeText env (ct_name contact),
                                           ct_company := sanitizeText env (ct_company contact),
                                           ct_email := sanitizeEmail env (ct_email contact),
                                           ct_linkedin := sanitizeUrl env (ct_linkedin contact),
                                           ct_xAccount := sanitizeText env (ct_xAccount contact),
                                           ct_notes := sanitizeText env (ct_notes contact),
                                           ct_traceDate := Some traceDate,
                                           ct_avatarUrl := Some (sanitizeUrl env (orElse (ct_avatarUrl contact) [])) \<rparr>;
               previousCache = getContacts s1;
               s2 = s1\<lparr>CONTACTS := updateCache (sanitizedContact # previousCache)\<rparr>;
               (res, s3) = await env (Insert ''contacts''
                  [(''id'', Str (ct_id sanitizedContact)),
                   (''name'', Str (ct_name sanitizedContact)),
                   (''company'', Str (ct_company sanitizedContact)),
                   (''email'', Str (ct_email sanitizedContact)),
                   (''linkedin'', Str (ct_linkedin sanitizedContact)),
                   (''x_account'', Str (ct_xAccount sanitizedContact)),
                   (''notes'', Str (ct_notes sanitizedContact)),
                   (''date_added'', Str (ct_dateAdded sanitizedContact)),
                   (''trace_date'', optStr (ct_traceDate sanitizedContact)),
                   (''avatar_url'', optStr (ct_avatarUrl sanitizedContact))]) s2
           in if error res \<noteq> None then s3\<lparr>CONTACTS := updateCache previousCache\<rparr> else s3)"

definition updateContact :: "('l, 'b) env \<Rightarrow> Contact \<Rightarrow> ('l, 'b) state \<Rightarrow> ('l, 'b) state" where
  "updateContact env updated s =
     (let (ok, s1) = guard env s
      in if \<not> ok then s1
         else
           let previousCache = getContacts s1;
               updatedCache = map (\<lambda>c. if ct_id c = ct_id updated then updated else c) previousCache;
               s2 = s1\<lparr>CONTACTS := updateCache updatedCache\<rparr>;
               (res, s3) = await env (Update ''contacts''
                  [(''name'', Str (sanitizeText env (ct_name updated))),
                   (''company'', Str (sanitizeText env (ct_company updated))),
                   (''email'', Str (sanitizeEmail env (ct_email updated))),
                   (''linkedin'', Str (sanitizeUrl env (ct_linkedin updated))),
                   (''x_account'', Str (ct_xAccount updated)),
                   (''notes'', Str (sanitizeText env (ct_notes updated))),
                   (''date_added'', Str (ct_dateAdded updated)),
                   (''trace_date'', optStr (ct_traceDate updated)),
                   (''avatar_url'', optStr (ct_avatarUrl updated))]
                  (ct_id updated)) s2
           in if error res \<noteq> None then s3\<lparr>CONTACTS := updateCache previousCache\<rparr> else s3)"

definition deleteContact :: "('l, 'b) env \<Rightarrow> string \<Rightarrow> ('l, 'b) state \<Rightarrow> ('l, 'b) state" where
  "deleteContact env ident s =
     (let (ok, s1) = guard env s
      in if \<not> ok then s1
         else
           let previousCache = getContacts s1;
               s2 = s1\<lparr>CONTACTS := updateCache (filter (\<lambda>c. ct_id c \<noteq> ident) previousCache)\<rparr>;
               (res, s3) = await env (Delete ''contacts'' ident) s2
           in if error res \<noteq> None then s3\<lparr>CONTACTS := updateCache previousCache\<rparr> else s3)"

subsection \<open>Discoveries\<close>

definition getDiscoveries :: "('l, 'b) state \<Rightarrow> Discovery list" where
  "getDiscoveries s = getCache (DISCOVERIES s)"

definition discoveryOfRow :: "row \<Rightarrow> Discovery" where
  "discoveryOfRow r =
     \<lparr> disc_id = asString (col r ''id''),
       disc_title = asString (col r ''title''),
       disc_url = asString (col r ''url''),
       disc_description = asString (col r ''description''),
       disc_category = asString (col r ''category''),
       disc_impact = asString (jsOr (col r ''impact'') (Str ''Linear'')),
       disc_dateAdded = asString (col r ''date_added''),
       disc_traceDate = asOptString (jsOr (col r ''trace_date'') (col r ''date_added'')),
       disc_pinned = Some (asBool (jsOr (col r ''pinned'') (Bool False))) \<rparr>"

definition fetchDiscoveries ::
  "('l, 'b) env \<Rightarrow> ('l, 'b) state \<Rightarrow> Discovery list \<times> ('l, 'b) state" where
  "fetchDiscoveries env s =
     (if \<not> ensureConfigured env then (getCache (DISCOVERIES s), s)
      else
        let (res, s1) = await env (Select ''discoveries'' [(''trace_date'', False)]) s
        in if error res \<noteq> None then (getCache (DISCOVERIES s1), s1)
           else let discoveries = map discoveryOfRow (case data res of None \<Rightarrow> [] | Some rows \<Rightarrow> rows)
                in (discoveries, s1\<lparr>DISCOVERIES := updateCache discoveries\<rparr>))"

definition saveDiscovery :: "('l, 'b) env \<Rightarrow> Discovery \<Rightarrow> ('l, 'b) state \<Rightarrow> ('l, 'b) state" where
  "saveDiscovery env discovery s =
     (let (ok, s1) = guard env s
      in if \<not> ok then s1
         else
           let traceDate = orElse (disc_traceDate discovery) (today env s1);
               sanitizedDiscovery = discovery\<lparr> disc_title := sanitizeText env (disc_title discovery),
                                               disc_url := sanitizeUrl env (disc_url discovery),
                                               disc_description := sanitizeText env (disc_description discovery),
                                               disc_category := sanitizeText env (disc_category discovery),
                                               disc_traceDate := Some traceDate \<rparr>;
               previousCache = getDiscoveries s1;
               s2 = s1\<lparr>DISCOVERIES := updateCache (sanitizedDiscovery # previousCache)\<rparr>;
               (res, s3) = await env (Insert ''discoveries''
                  [(''id'', Str (disc_id sanitizedDiscovery)),
                   (''title'', Str (disc_title sanitizedDiscovery)),
                   (''url'', Str (disc_url sanitizedDiscovery)),
                   (''description'', Str (disc_description sanitizedDiscovery)),
                   (''category'', Str (disc_category sanitizedDiscovery)),
                   (''impact'', Str (disc_impact sanitizedDiscovery)),
                   (''date_added'', Str (disc_dateAdded sanitizedDiscovery)),
                   (''trace_date'', optStr (disc_traceDate sanitizedDiscovery)),
                   (''pinned'', Bool (orFalse (disc_pinned sanitizedDiscovery)))]) s2
           in if error res \<noteq> None then s3\<lparr>DISCOVERIES := updateCache previousCache\<rparr> else s3)"

definition updateDiscovery :: "('l, 'b) env \<Rightarrow> Discovery \<Rightarrow> ('l, 'b) state \<Rightarrow> ('l, 'b) state" where
  "updateDiscovery env updated s =
     (let (ok, s1) = guard env s
      in if \<not> ok then s1
         else
           let previousCache = getDiscoveries s1;
               updatedCache = map (\<lambda>d. if disc_id d = disc_id updated then updated else d) previousCache;
               s2 = s1\<lparr>DISCOVERIES := updateCache updatedCache\<rparr>;
               (res, s3) = await env (Update ''discoveries''
                  [(''title'', Str (sanitizeText env (disc_title updated))),
                   (''url'', Str (sanitizeUrl env (disc_url updated))),
                   (''description'', Str (sanitizeText env (disc_description updated))),
                   (''category'', Str (sanitizeText env (disc_category updated))),
                   (''impact'', Str (disc_impact updated)),
                   (''date_added'', Str (disc_dateAdded updated)),
                   (''trace_date'', optStr (disc_traceDate updated)),
                   (''pinned'', Bool (orFalse (disc_pinned updated)))]
                  (disc_id updated)) s2
           in if error res \<noteq> None then s3\<lparr>DISCOVERIES := updateCache previousCache\<rparr> else s3)"

definition deleteDiscovery :: "('l, 'b) env \<Rightarrow> string \<Rightarrow> ('l, 'b) state \<Rightarrow> ('l, 'b) state" where
  "deleteDiscovery env ident s =
     (let (ok, s1) = guard env s
      in if \<not> ok then s1
         else
           let previousCache = getDiscoveries s1;
               s2 = s1\<lparr>DISCOVERIES := updateCache (filter (\<lambda>d. disc_id d \<noteq> ident) previousCache)\<rparr>;
               (res, s3) = await env (Delete ''discoveries'' ident) s2
           in if error res \<noteq> None then s3\<lparr>DISCOVERIES := updateCache previousCache\<rparr> else s3)"

subsection \<open>Expenses\<close>

definition getExpenses :: "('l, 'b) state \<Rightarrow> Expense list" where
  "getExpenses s = getCache (EXPENSES s)"

definition expenseOfRow :: "row \<Rightarrow> Expense" where
  "expenseOfRow r =
     \<lparr> exp_id = asString (col r ''id''),
       exp_title = asString (col r ''title''),
       exp_amount = asNumber (col r ''amount''),
       exp_category = asString (col r ''category''),
       exp_date = asString (col r ''date''),
       exp_createdAt = asString (col r ''created_at''),
       exp_traceDate = asOptString (jsOr (col r ''trace_date'') (col r ''date'')) \<rparr>"

definition fetchExpenses :: "('l, 'b) env \<Rightarrow> ('l, 'b) state \<Rightarrow> Expense list \<times> ('l, 'b) state" where
  "fetchExpenses env s =
     (if \<not> ensureConfigured env then (getCache (EXPENSES s), s)
      else
        let (res, s1) = await env (Select ''expenses'' [(''date'', False)]) s
        in if error res \<noteq> None then (getCache (EXPENSES s1), s1)
           else let expenses = map expenseOfRow (case data res of None \<Rightarrow> [] | Some rows \<Rightarrow> rows)
                in (expenses, s1\<lparr>EXPENSES := updateCache expenses\<rparr>))"

text \<open>
  \<open>saveExpense\<close> takes its default trace date from
  \<open>new Date().toISOString().split('T')[0]\<close>, the date in UTC.
\<close>

definition saveExpense :: "('l, 'b) env \<Rightarrow> Expense \<Rightarrow> ('l, 'b) state \<Rightarrow> ('l, 'b) state" where
  "saveExpense env expense s =
     (let (ok, s1) = guard env s
      in if \<not> ok then s1
         else
           let traceDate = orElse (exp_traceDate expense) (hd (split CHR ''T'' (toISOString (clock s1))));
               sanitizedExpense = expense\<lparr> exp_title := sanitizeText env (exp_title expense),
                                           exp_traceDate := Some traceDate \<rparr>;
               previousCache = getExpenses s1;
               s2 = s1\<lparr>EXPENSES := updateCache (sanitizedExpense # previousCache)\<rparr>;
               (res, s3) = await env (Insert ''expenses''
                  [(''id'', Str (exp_id sanitizedExpense)),
                   (''title'', Str (exp_title sanitizedExpense)),
                   (''amount'', Num (exp_amount sanitizedExpense)),
                   (''category'', Str (exp_category sanitizedExpense)),
                   (''date'', Str (exp_date sanitizedExpense)),
                   (''created_at'', Str (exp_createdAt sanitizedExpense)),
                   (''trace_date'', optStr (exp_traceDate sanitizedExpense))]) s2
           in if error res \<noteq> None then s3\<lparr>EXPENSES := updateCache previousCache\<rparr> else s3)"

definition deleteExpense :: "('l, 'b) env \<Rightarrow> string \<Rightarrow> ('l, 'b) state \<Rightarrow> ('l, 'b) state" where
  "deleteExpense env ident s =
     (let (ok, s1) = guard env s
      in if \<not> ok then s1
         else
           let previousCache = getExpenses s1;
               s2 = s1\<lparr>EXPENSES := updateCache (filter (\<lambda>e. exp_id e \<noteq> ident) previousCache)\<rparr>;
               (res, s3) = await env (Delete ''expenses'' ident) s2
           in if error res \<noteq> None then s3\<lparr>EXPENSES := updateCache previousCache\<rparr> else s3)"

subsection \<open>The calls of the storage module\<close>

text \<open>
  One constructor per exported function of \<open>Storage\<close> that reaches the backend, so that a
  property of every entity and operation is one statement. \<open>syncAll\<close> starts the eight
  fetches together and is not a call of its own here.
\<close>

datatype storageCall =
    FetchDailyEntries | SaveDailyEntry DailyEntry | UpdateDailyEntry DailyEntry | DeleteDailyEntry string
  | FetchIdeas | SaveIdea Idea | UpdateIdea Idea | DeleteIdea string
  | FetchWeeklyOutcomes | SaveWeeklyOutcome WeeklyOutcome | UpdateWeeklyOutcome WeeklyOutcome
  | DeleteWeeklyOutcome string
  | FetchTodos | SaveTodo Todo | UpdateTodo Todo | DeleteTodo string
  | FetchDecisions | SaveDecision DecisionGate | UpdateDecision DecisionGate | DeleteDecision string
  | FetchContacts | SaveContact Contact | UpdateContact Contact | DeleteContact string
  | FetchDiscoveries | SaveDiscovery Discovery | UpdateDiscovery Discovery | DeleteDiscovery string
  | FetchExpenses | SaveExpense Expense | DeleteExpense string

fun run :: "('l, 'b) env \<Rightarrow> storageCall \<Rightarrow> ('l, 'b) state \<Rightarrow> ('l, 'b) state" where
  "run env FetchDailyEntries s = snd (fetchDailyEntries env s)"
| "run env (SaveDailyEntry e) s = saveDailyEntry env e s"
| "run env (UpdateDailyEntry e) s = updateDailyEntry env e s"
| "run env (DeleteDailyEntry i) s = deleteDailyEntry env i s"
| "run env FetchIdeas s = snd (fetchIdeas env s)"
| "run env (SaveIdea e) s = saveIdea env e s"
| "run env (UpdateIdea e) s = updateIdea env e s"
| "run env (DeleteIdea i) s = deleteIdea env i s"
| "run env FetchWeeklyOutcomes s = snd (fetchWeeklyOutcomes env s)"
| "run env (SaveWeeklyOutcome e) s = saveWeeklyOutcome env e s"
| "run env (UpdateWeeklyOutcome e) s = updateWeeklyOutcome env e s"
| "run env (DeleteWeeklyOutcome i) s = deleteWeeklyOutcome env i s"
| "run env FetchTodos s = snd (fetchTodos env s)"
| "run env (SaveTodo e) s = saveTodo env e s"
| "run env (UpdateTodo e) s = updateTodo env e s"
| "run env (DeleteTodo i) s = deleteTodo env i s"
| "run env FetchDecisions s = snd (fetchDecisions env s)"
| "run env (SaveDecision e) s = saveDecision env e s"
| "run env (UpdateDecision e) s = updateDecision env e s"
| "run env (DeleteDecision i) s = deleteDecision env i s"
| "run env FetchContacts s = snd (fetchContacts env s)"
| "run env (SaveContact e) s = saveContact env e s"
| "run env (UpdateContact e) s = updateContact env e s"
| "run env (DeleteContact i) s = deleteContact env i s"
| "run env FetchDiscoveries s = snd (fetchDiscoveries env s)"
| "run env (SaveDiscovery e) s = saveDiscovery env e s"
| "run env (UpdateDiscovery e) s = updateDiscovery env e s"
| "run env (DeleteDiscovery i) s = deleteDiscovery env i s"
| "run env FetchExpenses s = snd (fetchExpenses env s)"
| "run env (SaveExpense e) s = saveExpense env e s"
| "run env (DeleteExpense i) s = deleteExpense env i s"

text \<open>The requests a call sent, with their responses, in order.\<close>

definition attempts ::
  "('l, 'b) env \<Rightarrow> storageCall \<Rightarrow> ('l, 'b) state \<Rightarrow> (request \<times> response) list" where
  "attempts env c s = drop (length (sent s)) (sent (run env c s))"

text \<open>The row a request carries: the payload of an insert or an update.\<close>

fun requestRow :: "request \<Rightarrow> row" where
  "requestRow (Insert t r) = r"
| "requestRow (Update t r i) = r"
| "requestRow (Select t order) = []"
| "requestRow (Delete t i) = []"

definition failed :: "request \<times> response \<Rightarrow> bool" where
  "failed a = (error (snd a) \<noteq> None)"

text \<open>
  The calls whose source has a second, legacy-shape request after a first one that
  failed.
\<close>

fun hasLegacyRetry :: "storageCall \<Rightarrow> bool" where
  "hasLegacyRetry FetchDailyEntries = True"
| "hasLegacyRetry (SaveDailyEntry e) = True"
| "hasLegacyRetry (UpdateDailyEntry e) = True"
| "hasLegacyRetry _ = False"

text \<open>The eight cached collections as the \<open>getX\<close> functions return them.\<close>

definition cached :: "('l, 'b) state \<Rightarrow>
    DailyEntry list \<times> Idea list \<times> WeeklyOutcome list \<times> Todo list \<times> DecisionGate list
    \<times> Contact list \<times> Discovery list \<times> Expense list" where
  "cached s = (getDailyEntries s, getIdeas s, getWeeklyOutcomes s, getTodos s, getDecisions s,
               getContacts s, getDiscoveries s, getExpenses s)"


section \<open>Views\<close>

subsection \<open>\<open>Array.prototype.sort\<close> with a comparator\<close>

text \<open>
  The sort is stable: an element moves in front of the elements it compares smaller
  than or equal to, from the right end of the array to the left.
\<close>

fun insertBy :: "('a \<Rightarrow> 'a \<Rightarrow> int) \<Rightarrow> 'a \<Rightarrow> 'a list \<Rightarrow> 'a list" where
  "insertBy cmp x [] = [x]"
| "insertBy cmp x (y # ys) = (if cmp x y \<le> 0 then x # y # ys else y # insertBy cmp x ys)"

definition sortBy :: "('a \<Rightarrow> 'a \<Rightarrow> int) \<Rightarrow> 'a list \<Rightarrow> 'a list" where
  "sortBy cmp xs = foldr (insertBy cmp) xs []"

text \<open>The default comparison of \<open>sort()\<close> on strings, by code units.\<close>

definition codeUnitCompare :: "string \<Rightarrow> string \<Rightarrow> int" where
  "codeUnitCompare a b = (if stringLess a b then - 1 else if stringLess b a then 1 else 0)"

subsection \<open>Idea inbox, Discoveries and Dashboard: the sort comparators\<close>

text \<open>
  \<open>localeCompare\<close> depends on the locale of the browser and is a parameter of the
  comparators that call it.
\<close>

definition ideaCompare :: "(string \<Rightarrow> string \<Rightarrow> int) \<Rightarrow> Idea \<Rightarrow> Idea \<Rightarrow> int" where
  "ideaCompare localeCompare a b =
     (let aExecuted = orFalse (idea_executed a);
          bExecuted = orFalse (idea_executed b)
      in if aExecuted \<noteq> bExecuted then (if aExecuted then 1 else - 1)
         else
           let aPinned = orFalse (idea_pinned a);
               bPinned = orFalse (idea_pinned b)
           in if aPinned \<noteq> bPinned then (if aPinned then - 1 else 1)
              else localeCompare (orElse (idea_traceDate b) (idea_date b))
                                 (orElse (idea_traceDate a) (idea_date a)))"

definition sortedIdeas :: "(string \<Rightarrow> string \<Rightarrow> int) \<Rightarrow> Idea list \<Rightarrow> Idea list" where
  "sortedIdeas localeCompare ideas = sortBy (ideaCompare localeCompare) ideas"

definition discoveryCompare :: "(string \<Rightarrow> string \<Rightarrow> int) \<Rightarrow> Discovery \<Rightarrow> Discovery \<Rightarrow> int" where
  "discoveryCompare localeCompare a b =
     (if orFalse (disc_pinned a) \<and> \<not> orFalse (disc_pinned b) then - 1
      else if \<not> orFalse (disc_pinned a) \<and> orFalse (disc_pinned b) then 1
      else localeCompare (orElse (disc_traceDate b) (disc_dateAdded b))
                         (orElse (disc_traceDate a) (disc_dateAdded a)))"

definition sortedDiscoveries ::
  "(string \<Rightarrow> string \<Rightarrow> int) \<Rightarrow> Discovery list \<Rightarrow> Discovery list" where
  "sortedDiscoveries localeCompare discoveries = sortBy (discoveryCompare localeCompare) discoveries"

text \<open>The Dashboard's \<open>sortByPinned\<close>, over the pin of a record.\<close>

definition sortByPinned :: "('a \<Rightarrow> bool option) \<Rightarrow> 'a list \<Rightarrow> 'a list" where
  "sortByPinned pinned items =
     sortBy (\<lambda>a b. if orFalse (pinned a) \<and> \<not> orFalse (pinned b) then - 1
                    else if \<not> orFalse (pinned a) \<and> orFalse (pinned b) then 1 else 0) items"

text \<open>
  The keys the comparators order by: unexecuted before executed and, within each,
  pinned before unpinned for ideas; pinned before unpinned for the other two.
\<close>

definition ideaRank :: "Idea \<Rightarrow> nat" where
  "ideaRank a = (if orFalse (idea_executed a) then 2 else 0) + (if orFalse (idea_pinned a) then 0 else 1)"

definition pinRank :: "('a \<Rightarrow> bool option) \<Rightarrow> 'a \<Rightarrow> nat" where
  "pinRank p a = (if orFalse (p a) then 0 else 1)"

subsection \<open>Todo list: \<open>toggleComplete\<close> and \<open>updateStatus\<close>\<close>

text \<open>The record \<open>updated\<close> that \<open>toggleComplete\<close> builds; \<open>now\<close> is the clock.\<close>

definition toggleCompleteUpdated :: "int \<Rightarrow> Todo \<Rightarrow> Todo" where
  "toggleCompleteUpdated now todo =
     (let isCompleting = \<not> todo_completed todo
      in todo\<lparr> todo_completed := isCompleting,
                todo_status := (if isCompleting then ''Completed'' else ''Pending''),
                todo_completedAt := (if isCompleting then Some (toISOString now) else None) \<rparr>)"

text \<open>
  The view keeps its own list \<open>todos\<close>; the call writes through the storage module and
  then replaces the record in that list.
\<close>

definition toggleComplete ::
  "('l, 'b) env \<Rightarrow> Todo \<Rightarrow> ('l, 'b) state \<times> Todo list \<Rightarrow> ('l, 'b) state \<times> Todo list" where
  "toggleComplete env todo v =
     (let updated = toggleCompleteUpdated (clock (fst v)) todo;
          s = updateTodo env updated (fst v)
      in (s, map (\<lambda>t. if todo_id t = todo_id todo then updated else t) (snd v)))"

definition updateStatusUpdated :: "int \<Rightarrow> Todo \<Rightarrow> string \<Rightarrow> Todo" where
  "updateStatusUpdated now todo status =
     (let isCompleting = (status = ''Completed'' \<and> \<not> todo_completed todo);
          isUncompleting = (status \<noteq> ''Completed'' \<and> todo_completed todo)
      in todo\<lparr> todo_status := status,
                todo_completed := (status = ''Completed''),
                todo_completedAt := (if isCompleting then Some (toISOString now)
                                     else if isUncompleting then None else todo_completedAt todo) \<rparr>)"

definition updateStatus ::
  "('l, 'b) env \<Rightarrow> Todo \<Rightarrow> string \<Rightarrow> ('l, 'b) state \<times> Todo list \<Rightarrow> ('l, 'b) state \<times> Todo list" where
  "updateStatus env todo status v =
     (let updated = updateStatusUpdated (clock (fst v)) todo status;
          s = updateTodo env updated (fst v)
      in (s, map (\<lambda>t. if todo_id t = todo_id todo then updated else t) (snd v)))"

subsection \<open>Insights: the logging streak\<close>

definition SYSTEM_START_DATE :: string where
  "SYSTEM_START_DATE = ''2026-01-12''"

text \<open>
  \<open>new Date(SYSTEM_START_DATE)\<close>: a date-only string is read as midnight UTC.
  \<open>mounted\<close> is the clock when the view computed \<open>daysSinceStart\<close>.
\<close>

definition daysSinceStart :: "int \<Rightarrow> int" where
  "daysSinceStart mounted = (mounted - MakeDate (MakeDay 2026 0 12) 0) div msPerDay"

definition last30Days :: "int \<Rightarrow> int \<Rightarrow> int \<Rightarrow> string list" where
  "last30Days tza mounted now =
     (let maxDays = min 30 (daysSinceStart mounted + 1)
      in filter (\<lambda>d. stringGe d SYSTEM_START_DATE)
           (map (\<lambda>i. getLocalDate tza
                        (setDate tza (Some now) (map_option (\<lambda>g. g - int i) (getDate tza (Some now)))))
                [0 ..< nat maxDays]))"

text \<open>\<open>[...new Set(xs)]\<close>: the first occurrence of each element, in order.\<close>

definition uniq :: "'a list \<Rightarrow> 'a list" where
  "uniq xs = rev (remdups (rev xs))"

definition logDates :: "DailyEntry list \<Rightarrow> string list" where
  "logDates dailyLogs = rev (sortBy codeUnitCompare (uniq (map de_date dailyLogs)))"

text \<open>The loop over \<open>last30Days\<close>, from index \<open>i\<close> with the count \<open>streak\<close> so far.\<close>

fun streakLoop :: "string list \<Rightarrow> string list \<Rightarrow> nat \<Rightarrow> nat \<Rightarrow> nat" where
  "streakLoop dates [] i streak = streak"
| "streakLoop dates (d # ds) i streak =
     (if d \<in> set dates then streakLoop dates ds (i + 1) (streak + 1)
      else if i > 0 then streak
      else streakLoop dates ds (i + 1) streak)"

text \<open>The daily logs are the fetched entries from the system start date on.\<close>

definition streak :: "int \<Rightarrow> int \<Rightarrow> int \<Rightarrow> DailyEntry list \<Rightarrow> nat" where
  "streak tza mounted now logs =
     (let dailyLogs = filter (\<lambda>l. stringGe (de_date l) SYSTEM_START_DATE) logs
      in streakLoop (logDates dailyLogs) (last30Days tza mounted now) 0 0)"

text \<open>
  The streak as the specification words it: the number of consecutive local calendar
  days with at least one daily entry, counting backward from today, where any day
  without an entry ends the count. With \<open>n\<close> entries at most \<open>n\<close> days are logged, so
  \<open>n + 1\<close> days are looked at.
\<close>

definition dayBefore :: "int \<Rightarrow> int \<Rightarrow> nat \<Rightarrow> string" where
  "dayBefore tza now i = getLocalDate tza (Some (now - int i * msPerDay))"

definition spec_streak :: "int \<Rightarrow> int \<Rightarrow> DailyEntry list \<Rightarrow> nat" where
  "spec_streak tza now logs =
     length (takeWhile (\<lambda>i. dayBefore tza now i \<in> set (map de_date logs))
               [0 ..< length logs + 1])"

section \<open>Closed examples\<close>





definition accepting :: "unit \<Rightarrow> request \<Rightarrow> response \<times> unit" where
  "accepting b q = (\<lparr> data = Some [], error = None \<rparr>, ())"

fun mentionsPinned :: "request \<Rightarrow> bool" where
  "mentionsPinned (Select t order) = (''pinned'' \<in> set (map fst order))"
| "mentionsPinned (Insert t r) = (''pinned'' \<in> set (map fst r))"
| "mentionsPinned (Update t r i) = (''pinned'' \<in> set (map fst r))"
| "mentionsPinned (Delete t i) = False"

definition legacy :: "unit \<Rightarrow> request \<Rightarrow> response \<times> unit" where
  "legacy b q = (if mentionsPinned q then (\<lparr> data = None, error = Some ''column pinned does not exist'' \<rparr>, ())
                 else (\<lparr> data = Some [], error = None \<rparr>, ()))"


text \<open>The clock stands at 2026-01-12T04:30:00Z, which is 23:30 on 11 January in UTC-5.\<close>

definition exampleIdea :: Idea where
  "exampleIdea =
     \<lparr> idea_id = ''i1'', idea_date = ''2026-01-10'', idea_thought = ''write <b>more</b>'',
       idea_category = ''Content'', idea_urgency = ''Medium'', idea_status = ''Inbox'',
       idea_platform = None, idea_executed = Some False, idea_pinned = Some False,
       idea_traceDate = Some ''2026-01-10'' \<rparr>"









text \<open>An idea that is pinned and executed, and one that is pinned and not executed.\<close>

definition examplePinnedExecuted :: Idea where
  "examplePinnedExecuted =
     exampleIdea\<lparr> idea_id := ''i2'', idea_executed := Some True, idea_pinned := Some True,
                  idea_traceDate := Some ''2026-01-11'' \<rparr>"

definition examplePinned :: Idea where
  "examplePinned =
     exampleIdea\<lparr> idea_id := ''i3'', idea_pinned := Some True, idea_traceDate := Some ''2026-01-02'' \<rparr>"

text \<open>Noon UTC on 10 February 2026, and a daily entry for a date.\<close>

definition exampleNoon :: int where
  "exampleNoon = 1770724800000"

definition exampleLog :: "string \<Rightarrow> DailyEntry" where
  "exampleLog d =
     \<lparr> de_id = d, de_date = d, de_workedOn = ''work'', de_shipped = ''ship'',
       de_traceDate = Some d, de_pinned = None, de_position = None \<rparr>"

section \<open>Verification: calendar arithmetic and date strings\<close>

subsection \<open>Calendar arithmetic\<close>

lemma div_step:
  fixes a n :: int assumes n: "0 < n"
  shows "(a + 1) div n = (if (a + 1) mod n = 0 then a div n + 1 else a div n)"
proof -
  define q where "q = (a + 1) div n"
  define r where "r = (a + 1) mod n"
  have e: "a + 1 = n * q + r" unfolding q_def r_def by simp
  have b: "0 \<le> r" "r < n" unfolding r_def using n by simp_all
  show ?thesis
  proof (cases "r = 0")
    case True
    have "a = n * (q - 1) + (n - 1)" using e True by (simp add: algebra_simps)
    then have "a div n = q - 1" using n by (intro int_div_pos_eq[where r = "n - 1"]) auto
    then show ?thesis using True unfolding q_def r_def by simp
  next
    case False
    have "a = n * q + (r - 1)" using e by simp
    then have "a div n = q" using n b False by (intro int_div_pos_eq[where r = "r - 1"]) auto
    then show ?thesis using False unfolding q_def r_def by simp
  qed
qed

lemma mod_shift: "(y - k * n) mod n = y mod n" for y :: int
  by (metis diff_conv_add_uminus mod_mult_self1 mult_minus_left)

lemma step4: "(y - 1968) div 4 = (y - 1969) div 4 + (if y mod 4 = 0 then 1 else 0)" for y :: int
  using div_step[of 4 "y - 1969"] mod_shift[of y 492 4] by simp

lemma step100: "(y - 1900) div 100 = (y - 1901) div 100 + (if y mod 100 = 0 then 1 else 0)" for y :: int
  using div_step[of 100 "y - 1901"] mod_shift[of y 19 100] by simp

lemma step400: "(y - 1600) div 400 = (y - 1601) div 400 + (if y mod 400 = 0 then 1 else 0)" for y :: int
  using div_step[of 400 "y - 1601"] mod_shift[of y 4 400] by simp

lemma DayFromYear_Suc: "DayFromYear (y + 1) = DayFromYear y + DaysInYear y"
proof -
  define a where "a = (y - 1969) div 4"
  define b where "b = (y - 1901) div 100"
  define c where "c = (y - 1601) div 400"
  define a' where "a' = (y - 1968) div 4"
  define b' where "b' = (y - 1900) div 100"
  define c' where "c' = (y - 1600) div 400"
  define p4 where "p4 = (y mod 4 = 0)"
  define p100 where "p100 = (y mod 100 = 0)"
  define p400 where "p400 = (y mod 400 = 0)"
  have i1: "p100 \<Longrightarrow> p4"
    unfolding p100_def p4_def using mod_mod_cancel[of 4 100 y] by simp
  have i2: "p400 \<Longrightarrow> p100"
    unfolding p400_def p100_def using mod_mod_cancel[of 100 400 y] by simp
  have sa: "a' = a + (if p4 then 1 else 0)" unfolding a'_def a_def p4_def by (rule step4)
  have sb: "b' = b + (if p100 then 1 else 0)" unfolding b'_def b_def p100_def by (rule step100)
  have sc: "c' = c + (if p400 then 1 else 0)" unfolding c'_def c_def p400_def by (rule step400)
  have e0: "y + 1 - 1970 = y - 1969" "y + 1 - 1969 = y - 1968" "y + 1 - 1901 = y - 1900"
    "y + 1 - 1601 = y - 1600" by simp_all
  have e1: "DayFromYear (y + 1) = 365 * (y - 1969) + a' - b' + c'"
    unfolding DayFromYear_def e0 a'_def b'_def c'_def by (rule refl)
  have e2: "DayFromYear y = 365 * (y - 1970) + a - b + c"
    unfolding DayFromYear_def a_def b_def c_def by (rule refl)
  have e3: "DaysInYear y = (if \<not> p4 then 365 else if \<not> p100 then 366
                   else if \<not> p400 then 365 else 366)"
    unfolding DaysInYear_def p4_def p100_def p400_def by (rule refl)
  show ?thesis unfolding e1 e2 e3 sa sb sc using i1 i2 by auto
qed

lemma DaysInYear_cases: "DaysInYear y = 365 \<or> DaysInYear y = 366"
  by (simp add: DaysInYear_def)

lemma DayFromYear_less: "DayFromYear y < DayFromYear (y + 1)"
  using DayFromYear_Suc[of y] DaysInYear_cases[of y] by linarith

lemma DayFromYear_mono: "y \<le> z \<Longrightarrow> DayFromYear y \<le> DayFromYear z"
proof (induction z rule: int_ge_induct)
  case base
  show ?case by simp
next
  case (step i)
  then show ?case using DayFromYear_less[of i] by linarith
qed

lemma div_bounds:
  fixes x n :: int assumes "0 < n"
  shows "n * (x div n) \<le> x" "x < n * (x div n) + n"
proof -
  have "x = n * (x div n) + x mod n" by simp
  moreover have "0 \<le> x mod n" "x mod n < n" using assms by simp_all
  ultimately show "n * (x div n) \<le> x" "x < n * (x div n) + n" by linarith+
qed

lemma DayFromYear_bounds:
  "400 * DayFromYear y \<le> 146097 * (y - 1970) + 589"
  "146097 * (y - 1970) - 506 \<le> 400 * DayFromYear y"
proof -
  define a where "a = (y - 1969) div 4"
  define b where "b = (y - 1901) div 100"
  define c where "c = (y - 1601) div 400"
  have A: "4 * a \<le> y - 1969" "y - 1969 < 4 * a + 4"
    unfolding a_def by (rule div_bounds, simp)+
  have B: "100 * b \<le> y - 1901" "y - 1901 < 100 * b + 100"
    unfolding b_def by (rule div_bounds, simp)+
  have C: "400 * c \<le> y - 1601" "y - 1601 < 400 * c + 400"
    unfolding c_def by (rule div_bounds, simp)+
  have D0: "DayFromYear y = 365 * (y - 1970) + a - b + c"
    unfolding DayFromYear_def a_def b_def c_def by (rule refl)
  have D: "400 * DayFromYear y = 146000 * y - 287620000 + 400 * a - 400 * b + 400 * c"
    unfolding D0 by simp
  have 1: "400 * a \<le> 100 * y - 196900" using A(1) by simp
  have 2: "4 * y - 7604 \<le> 400 * b + 396" using B(2) by simp
  have 3: "100 * y - 196900 \<le> 400 * a + 300" using A(2) by simp
  have 4: "400 * b \<le> 4 * y - 7604" using B(1) by simp
  show "400 * DayFromYear y \<le> 146097 * (y - 1970) + 589" using 1 2 D C(1) by simp
  show "146097 * (y - 1970) - 506 \<le> 400 * DayFromYear y" using 3 4 D C(2) by simp
qed

lemma YearFromDay_bounds:
  "DayFromYear (YearFromDay d) \<le> d" "d < DayFromYear (YearFromDay d + 1)"
proof -
  define q where "q = (400 * d) div 146097"
  define y where "y = 1970 + q"
  have Q: "146097 * q \<le> 400 * d" "400 * d < 146097 * q + 146097"
    unfolding q_def by (rule div_bounds, simp)+
  have up: "400 * DayFromYear (y - 1) \<le> 146097 * q - 146097 + 589"
    using DayFromYear_bounds(1)[of "y - 1"] unfolding y_def by simp
  have lo: "146097 * q + 292194 - 506 \<le> 400 * DayFromYear (y + 2)"
    using DayFromYear_bounds(2)[of "y + 2"] unfolding y_def by simp
  have a: "DayFromYear (y - 1) \<le> d" using up Q(1) by simp
  have b: "d < DayFromYear (y + 2)" using lo Q(2) by simp
  have Y: "YearFromDay d =
      (if DayFromYear (y + 1) \<le> d then y + 1 else if d < DayFromYear y then y - 1 else y)"
    unfolding YearFromDay_def y_def q_def Let_def by (rule refl)
  have c: "y + 1 + 1 = y + 2" "y - 1 + 1 = y" by simp_all
  consider (hi) "DayFromYear (y + 1) \<le> d"
    | (lo) "\<not> DayFromYear (y + 1) \<le> d" "d < DayFromYear y"
    | (mid) "\<not> DayFromYear (y + 1) \<le> d" "\<not> d < DayFromYear y" by blast
  then have "DayFromYear (YearFromDay d) \<le> d \<and> d < DayFromYear (YearFromDay d + 1)"
  proof cases
    case hi
    then have yd: "YearFromDay d = y + 1" using Y by simp
    show ?thesis unfolding yd c using hi b by blast
  next
    case lo
    then have yd: "YearFromDay d = y - 1" using Y by simp
    show ?thesis unfolding yd c using lo a by blast
  next
    case mid
    then have yd: "YearFromDay d = y" using Y by simp
    show ?thesis unfolding yd using mid by simp
  qed
  then show "DayFromYear (YearFromDay d) \<le> d" "d < DayFromYear (YearFromDay d + 1)"
    by simp_all
qed

lemma YearFromDay_unique:
  assumes "DayFromYear y \<le> d" "d < DayFromYear (y + 1)"
  shows "YearFromDay d = y"
proof (rule ccontr)
  assume ne: "YearFromDay d \<noteq> y"
  let ?z = "YearFromDay d"
  show False
  proof (cases "?z < y")
    case True
    then have "DayFromYear (?z + 1) \<le> DayFromYear y" by (intro DayFromYear_mono) simp
    then show False using YearFromDay_bounds(2)[of d] assms(1) by linarith
  next
    case False
    then have "DayFromYear (y + 1) \<le> DayFromYear ?z" using ne by (intro DayFromYear_mono) simp
    then show False using YearFromDay_bounds(1)[of d] assms(2) by linarith
  qed
qed


lemma DayWithinYear_bounds:
  "0 \<le> DayWithinYear t" "DayWithinYear t < 365 + InLeapYear t"
proof -
  let ?y = "YearFromTime t"
  have a: "DayFromYear ?y \<le> Day t" "Day t < DayFromYear (?y + 1)"
    unfolding YearFromTime_def by (rule YearFromDay_bounds)+
  show "0 \<le> DayWithinYear t" unfolding DayWithinYear_def using a(1) by simp
  have "DaysInYear ?y = 365 + InLeapYear t"
    unfolding InLeapYear_def using DaysInYear_cases[of ?y] by auto
  then show "DayWithinYear t < 365 + InLeapYear t"
    unfolding DayWithinYear_def using a(2) DayFromYear_Suc[of ?y] by simp
qed

lemma InLeapYear_cases: "InLeapYear t = 0 \<or> InLeapYear t = 1"
  by (simp add: InLeapYear_def)

lemma MonthFromTime_range: "0 \<le> MonthFromTime t" "MonthFromTime t \<le> 11"
  using DayWithinYear_bounds[of t] by (simp_all add: MonthFromTime_def Let_def)

lemma month_small: "0 \<le> m \<Longrightarrow> m \<le> 11 \<Longrightarrow> m div 12 = 0 \<and> m mod 12 = m" for m :: int
  by simp

lemma MakeDay_of_components:
  "MakeDay (YearFromTime t) (MonthFromTime t) (DateFromTime t) = Day t"
proof -
  define d where "d = DayWithinYear t"
  define l where "l = InLeapYear t"
  define y where "y = YearFromTime t"
  have l: "l = 0 \<or> l = 1" unfolding l_def by (rule InLeapYear_cases)
  have d: "0 \<le> d" "d < 365 + l" unfolding d_def l_def by (rule DayWithinYear_bounds)+
  have ll: "(if DaysInYear y = 366 then 1 else 0) = l"
    unfolding l_def InLeapYear_def y_def by (rule refl)
  have dd: "Day t = DayFromYear y + d" unfolding d_def DayWithinYear_def y_def by simp
  have r: "MonthFromTime t div 12 = 0" "MonthFromTime t mod 12 = MonthFromTime t"
    using month_small[OF MonthFromTime_range[of t]] by simp_all
  have "monthStart y (MonthFromTime t) + DateFromTime t - 1 = DayFromYear y + d"
    unfolding monthStart_def ll Let_def DateFromTime_def MonthFromTime_def
      d_def[symmetric] l_def[symmetric]
    using l d by auto
  then show ?thesis unfolding MakeDay_def r dd y_def by simp
qed

lemma components_of_MakeDay:
  assumes m: "0 \<le> m" "m \<le> 11" and dt: "1 \<le> dt"
    and hi: "MakeDay y m dt < MakeDay y (m + 1) 1"
    and t: "Day t = MakeDay y m dt"
  shows "YearFromTime t = y" "MonthFromTime t = m" "DateFromTime t = dt"
proof -
  define l :: int where "l = (if DaysInYear y = 366 then 1 else 0)"
  define off :: "int \<Rightarrow> int" where "off = (\<lambda>mn. if mn = 0 then 0 else if mn = 1 then 31
          else if mn = 2 then 59 + l
          else if mn = 3 then 90 + l else if mn = 4 then 120 + l else if mn = 5 then 151 + l
          else if mn = 6 then 181 + l else if mn = 7 then 212 + l else if mn = 8 then 243 + l
          else if mn = 9 then 273 + l else if mn = 10 then 304 + l else 334 + l)"
  have l: "l = 0 \<or> l = 1" unfolding l_def by simp
  have diy: "DaysInYear y = 365 + l" unfolding l_def using DaysInYear_cases[of y] by auto
  have ms: "monthStart y k = DayFromYear y + off k" for k
    unfolding monthStart_def off_def l_def Let_def by (rule refl)
  have r: "m div 12 = 0" "m mod 12 = m" using month_small[OF m] by simp_all
  have n: "Day t = DayFromYear y + off m + dt - 1" unfolding t MakeDay_def r by (simp add: ms)
  have mcases: "m = 0 \<or> m = 1 \<or> m = 2 \<or> m = 3 \<or> m = 4 \<or> m = 5 \<or> m = 6 \<or> m = 7
      \<or> m = 8 \<or> m = 9 \<or> m = 10 \<or> m = 11" using m by presburger
  have nx: "MakeDay y (m + 1) 1 = (if m = 11 then DayFromYear (y + 1) else DayFromYear y + off (m + 1))"
    using mcases unfolding MakeDay_def
    by (elim disjE) (simp_all add: monthStart_def off_def l_def)
  have offm: "0 \<le> off m" using mcases l unfolding off_def by auto
  have up: "off m + dt - 1 < (if m = 11 then 365 + l else off (m + 1))"
    using hi unfolding nx n[symmetric] t[symmetric] using n DayFromYear_Suc[of y] diy
    by (auto split: if_splits)
  have offle: "(if m = 11 then 365 + l else off (m + 1)) \<le> 365 + l"
    using mcases l unfolding off_def by auto
  have "DayFromYear y \<le> Day t" "Day t < DayFromYear (y + 1)"
    using n offm dt up offle DayFromYear_Suc[of y] diy by linarith+
  then show Y: "YearFromTime t = y" unfolding YearFromTime_def by (rule YearFromDay_unique)
  have L: "InLeapYear t = l" unfolding InLeapYear_def Y l_def by (rule refl)
  have D: "DayWithinYear t = off m + dt - 1" unfolding DayWithinYear_def Y n by simp
  show M: "MonthFromTime t = m"
    unfolding MonthFromTime_def D L Let_def using mcases l dt up unfolding off_def
    by (elim disjE) simp_all
  show "DateFromTime t = dt"
    unfolding DateFromTime_def M D L Let_def using mcases l unfolding off_def
    by (elim disjE) auto
qed

subsection \<open>Decimal strings\<close>

lemma of_char_digitChar: "n < 10 \<Longrightarrow> (of_char (digitChar n) :: nat) = 48 + n"
  by (simp add: digitChar_def)

lemma isDigit_digitChar: "n < 10 \<Longrightarrow> isDigit (digitChar n)"
  by (simp add: isDigit_def of_char_digitChar)

lemma isDigit_zero: "isDigit CHR ''0''"
  by (simp add: isDigit_def)

lemma isDigit_not_special:
  assumes "isDigit c"
  shows "c \<noteq> CHR ''-''" "c \<noteq> CHR ''+''" "c \<noteq> CHR ''T''" "\<not> isWhite c"
  using assms by (auto simp: isDigit_def isWhite_def)

lemma natToString_digits: "\<forall>c \<in> set (natToString n). isDigit c"
proof (induction n rule: natToString.induct)
  case (1 n)
  show ?case
  proof (cases "n < 10")
    case True
    then show ?thesis by (subst natToString.simps) (simp add: isDigit_digitChar)
  next
    case False
    then show ?thesis using 1 by (subst natToString.simps) (simp add: isDigit_digitChar)
  qed
qed

lemma natToString_nonempty: "natToString n \<noteq> []"
  by (subst natToString.simps) simp

lemma digitsValue_snoc: "digitsValue (ds @ [c]) = 10 * digitsValue ds + (of_char c - 48)"
  by (simp add: digitsValue_def)

lemma digitsValue_natToString: "digitsValue (natToString n) = n"
proof (induction n rule: natToString.induct)
  case (1 n)
  show ?case
  proof (cases "n < 10")
    case True
    then show ?thesis
      by (subst natToString.simps) (simp add: digitsValue_def of_char_digitChar)
  next
    case False
    then have "digitsValue (natToString n) = 10 * (n div 10) + n mod 10"
      using 1 by (subst natToString.simps) (simp add: digitsValue_snoc of_char_digitChar)
    then show ?thesis by simp
  qed
qed

lemma digitsValue_zeros: "digitsValue (replicate k CHR ''0'' @ ds) = digitsValue ds"
proof -
  have "foldl (\<lambda>acc c. 10 * acc + (of_char c - 48)) (0::nat) (replicate k CHR ''0'') = 0"
    by (induction k) simp_all
  then show ?thesis by (simp add: digitsValue_def)
qed

lemma parseInt_digits:
  assumes "ds \<noteq> []" "\<forall>c \<in> set ds. isDigit c"
  shows "parseInt ds = Some (int (digitsValue ds))"
proof -
  obtain c cs where ds: "ds = c # cs" using assms(1) by (cases ds) auto
  have c: "isDigit c" using assms(2) ds by simp
  have w: "dropWhile isWhite ds = ds" using isDigit_not_special(4)[OF c] ds by simp
  have t: "takeWhile isDigit ds = ds" using assms(2) by (simp add: takeWhile_eq_all_conv)
  have h: "hd ds \<noteq> CHR ''-''" "hd ds \<noteq> CHR ''+''"
    using isDigit_not_special(1,2)[OF c] ds by simp_all
  show ?thesis unfolding parseInt_def w Let_def using h assms(1) by (simp add: t)
qed

lemma padded_digits:
  "padStart k CHR ''0'' (natToString n) \<noteq> []"
  "\<forall>c \<in> set (padStart k CHR ''0'' (natToString n)). isDigit c"
  "digitsValue (padStart k CHR ''0'' (natToString n)) = n"
  using natToString_digits[of n]
  by (auto simp: padStart_def natToString_nonempty isDigit_zero digitsValue_zeros
      digitsValue_natToString)

lemma parseInt_natToString: "parseInt (padStart k CHR ''0'' (natToString n)) = Some (int n)"
  using parseInt_digits[OF padded_digits(1,2), of k n] by (simp add: padded_digits(3))

lemma numberToString_nonneg: "0 \<le> n \<Longrightarrow> numberToString (Some n) = natToString (nat n)"
  by (simp add: numberToString_def)

lemma padStart_zero: "padStart 0 c s = s"
  by (simp add: padStart_def)

subsection \<open>Splitting\<close>

lemma split_nonempty: "split sep s \<noteq> []"
  by (induction s) (auto split: list.splits)

lemma split_none: "sep \<notin> set s \<Longrightarrow> split sep s = [s]"
  by (induction s) (auto split: list.splits)

lemma split_append: "sep \<notin> set a \<Longrightarrow> split sep (a @ sep # b) = a # split sep b"
  by (induction a) (auto split: list.splits)

lemma digits_no_sep:
  assumes "\<forall>c \<in> set ds. isDigit c"
  shows "CHR ''-'' \<notin> set ds" "CHR ''T'' \<notin> set ds"
proof -
  show "CHR ''-'' \<notin> set ds" using assms isDigit_not_special(1) by metis
  show "CHR ''T'' \<notin> set ds" using assms isDigit_not_special(3) by metis
qed

lemma Day_MakeDate: "0 \<le> r \<Longrightarrow> r < msPerDay \<Longrightarrow> Day (MakeDate n r) = n"
  unfolding Day_def MakeDate_def msPerDay_def by simp

lemma same_day_components:
  assumes "Day t = Day u"
  shows "YearFromTime t = YearFromTime u" "MonthFromTime t = MonthFromTime u"
    "DateFromTime t = DateFromTime u"
proof -
  show y: "YearFromTime t = YearFromTime u" unfolding YearFromTime_def assms by (rule refl)
  have l: "InLeapYear t = InLeapYear u" unfolding InLeapYear_def y by (rule refl)
  have d: "DayWithinYear t = DayWithinYear u" unfolding DayWithinYear_def y assms by (rule refl)
  show m: "MonthFromTime t = MonthFromTime u" unfolding MonthFromTime_def l d by (rule refl)
  show "DateFromTime t = DateFromTime u" unfolding DateFromTime_def l d m by (rule refl)
qed

lemma DateFromTime_pos: "1 \<le> DateFromTime t"
  using DayWithinYear_bounds[of t] InLeapYear_cases[of t]
  unfolding DateFromTime_def MonthFromTime_def Let_def by auto

lemma getLocalDate_valid:
  assumes "0 \<le> YearFromTime (LocalTime tza t)"
  shows "getLocalDate tza (Some t) =
     natToString (nat (YearFromTime (LocalTime tza t))) @ CHR ''-'' #
     padStart 2 CHR ''0'' (natToString (nat (MonthFromTime (LocalTime tza t) + 1))) @ CHR ''-'' #
     padStart 2 CHR ''0'' (natToString (nat (DateFromTime (LocalTime tza t))))"
proof -
  have m: "0 \<le> MonthFromTime (LocalTime tza t) + 1"
    using MonthFromTime_range(1)[of "LocalTime tza t"] by simp
  have d: "0 \<le> DateFromTime (LocalTime tza t)"
    using DateFromTime_pos[of "LocalTime tza t"] by simp
  show ?thesis
    unfolding getLocalDate_def getFullYear_def getMonth_def getDate_def plusOne_def Let_def
    by (simp add: numberToString_nonneg assms m d)
qed

lemma split_date_string:
  assumes "\<forall>c \<in> set a. isDigit c" "\<forall>c \<in> set b. isDigit c" "\<forall>c \<in> set c. isDigit c"
  shows "split CHR ''-'' (hd (split CHR ''T'' (a @ CHR ''-'' # b @ CHR ''-'' # c))) = [a, b, c]"
proof -
  have "CHR ''T'' \<notin> set (a @ CHR ''-'' # b @ CHR ''-'' # c)"
    using digits_no_sep(2)[OF assms(1)] digits_no_sep(2)[OF assms(2)]
      digits_no_sep(2)[OF assms(3)] by simp
  then have "hd (split CHR ''T'' (a @ CHR ''-'' # b @ CHR ''-'' # c)) = a @ CHR ''-'' # b @ CHR ''-'' # c"
    by (simp add: split_none)
  moreover have "split CHR ''-'' (a @ CHR ''-'' # b @ CHR ''-'' # c) = [a, b, c]"
    using digits_no_sep(1)[OF assms(1)] digits_no_sep(1)[OF assms(2)]
      digits_no_sep(1)[OF assms(3)] by (simp add: split_append split_none)
  ultimately show ?thesis by simp
qed

lemma parseLocalDate_getLocalDate:
  assumes t: "\<bar>t\<bar> \<le> 8640000000000000" and z: "\<bar>tza\<bar> \<le> msPerDay"
    and y: "100 \<le> YearFromTime (LocalTime tza t)"
  shows "parseLocalDate tza now fromString (getLocalDate tza (Some t))
         = Some (UTC tza (MakeDate (Day (LocalTime tza t)) 0))"
proof -
  let ?lt = "LocalTime tza t"
  let ?Y = "natToString (nat (YearFromTime ?lt))"
  let ?M = "padStart 2 CHR ''0'' (natToString (nat (MonthFromTime ?lt + 1)))"
  let ?D = "padStart 2 CHR ''0'' (natToString (nat (DateFromTime ?lt)))"
  have y0: "0 \<le> YearFromTime ?lt" using y by simp
  have g: "getLocalDate tza (Some t) = ?Y @ CHR ''-'' # ?M @ CHR ''-'' # ?D"
    using getLocalDate_valid[OF y0] .
  have ne: "?Y @ CHR ''-'' # ?M @ CHR ''-'' # ?D \<noteq> []" by simp
  have dy: "\<forall>c \<in> set ?Y. isDigit c" by (rule natToString_digits)
  have parts: "split CHR ''-'' (hd (split CHR ''T'' (?Y @ CHR ''-'' # ?M @ CHR ''-'' # ?D)))
      = [?Y, ?M, ?D]"
    by (rule split_date_string[OF dy padded_digits(2) padded_digits(2)])
  have pY: "parseInt ?Y = Some (YearFromTime ?lt)"
    using parseInt_natToString[of 0 "nat (YearFromTime ?lt)"] y0 by (simp add: padStart_zero)
  have pM: "parseInt ?M = Some (MonthFromTime ?lt + 1)"
    using parseInt_natToString[of 2 "nat (MonthFromTime ?lt + 1)"]
      MonthFromTime_range(1)[of ?lt] by simp
  have pD: "parseInt ?D = Some (DateFromTime ?lt)"
    using parseInt_natToString[of 2 "nat (DateFromTime ?lt)"] DateFromTime_pos[of ?lt] by simp
  have nd: "newDate tza (Some (YearFromTime ?lt)) (Some (MonthFromTime ?lt)) (Some (DateFromTime ?lt))
      = TimeClip (UTC tza (MakeDate (Day ?lt) 0))"
    using y by (simp add: newDate_def MakeDay_of_components MakeTime_def)
  have p: "parseLocalDate tza now fromString (getLocalDate tza (Some t))
      = TimeClip (UTC tza (MakeDate (Day ?lt) 0))"
    unfolding g parseLocalDate_def parts Let_def using ne nd by (simp add: pY pM pD)
  define n where "n = Day ?lt"
  have up: "n * msPerDay \<le> t + tza"
    unfolding n_def Day_def LocalTime_def using div_bounds(1)[of msPerDay "t + tza"]
    by (simp add: msPerDay_def mult.commute)
  have "DayFromYear 100 \<le> DayFromYear (YearFromTime ?lt)" using y by (rule DayFromYear_mono)
  also have "\<dots> \<le> n" unfolding n_def YearFromTime_def by (rule YearFromDay_bounds)
  finally have lo: "- 683003 \<le> n" by (simp add: DayFromYear_def)
  have lo': "- 683003 * msPerDay \<le> n * msPerDay" using lo by (simp add: msPerDay_def)
  have "\<bar>UTC tza (MakeDate n 0)\<bar> \<le> 8640000000000000"
    using up lo' t z unfolding UTC_def MakeDate_def msPerDay_def by simp
  then show ?thesis unfolding p n_def[symmetric] by (simp add: TimeClip_def)
qed

lemma local_midnight_components:
  "getFullYear tza (Some (UTC tza (MakeDate (Day (LocalTime tza t)) 0))) = getFullYear tza (Some t)"
  "getMonth tza (Some (UTC tza (MakeDate (Day (LocalTime tza t)) 0))) = getMonth tza (Some t)"
  "getDate tza (Some (UTC tza (MakeDate (Day (LocalTime tza t)) 0))) = getDate tza (Some t)"
proof -
  have e: "LocalTime tza (UTC tza (MakeDate (Day (LocalTime tza t)) 0)) = MakeDate (Day (LocalTime tza t)) 0"
    by (simp add: LocalTime_def UTC_def)
  have d: "Day (MakeDate (Day (LocalTime tza t)) 0) = Day (LocalTime tza t)"
    by (rule Day_MakeDate) (simp_all add: msPerDay_def)
  show "getFullYear tza (Some (UTC tza (MakeDate (Day (LocalTime tza t)) 0))) = getFullYear tza (Some t)"
    by (simp add: getFullYear_def e same_day_components(1)[OF d])
  show "getMonth tza (Some (UTC tza (MakeDate (Day (LocalTime tza t)) 0))) = getMonth tza (Some t)"
    by (simp add: getMonth_def e same_day_components(2)[OF d])
  show "getDate tza (Some (UTC tza (MakeDate (Day (LocalTime tza t)) 0))) = getDate tza (Some t)"
    by (simp add: getDate_def e same_day_components(3)[OF d])
qed

lemma LocalTime_UTC: "LocalTime tza (UTC tza x) = x"
  by (simp add: LocalTime_def UTC_def)

lemma getLocalDate_late_evening:
  assumes "0 \<le> m" "m \<le> 11" "1 \<le> dt" "MakeDay y m dt < MakeDay y (m + 1) 1"
  shows "getLocalDate tza (Some (UTC tza (MakeDate (MakeDay y m dt) (MakeTime 23 30 0 0))))
         = numberToString (Some y) @ ''-'' @ pad2 (m + 1) @ ''-'' @ pad2 dt"
proof -
  have d: "Day (MakeDate (MakeDay y m dt) (MakeTime 23 30 0 0)) = MakeDay y m dt"
    by (rule Day_MakeDate)
      (simp_all add: MakeTime_def msPerDay_def msPerHour_def msPerMinute_def msPerSecond_def)
  note c = components_of_MakeDay[OF assms d]
  show ?thesis
    unfolding getLocalDate_def getFullYear_def getMonth_def getDate_def plusOne_def Let_def pad2_def
    by (simp add: c LocalTime_UTC)
qed

subsection \<open>Round trip of local dates\<close>

text \<open>
  Claim C6, as the code has it. For every valid \<open>Date\<close> whose local year is at least 100,
  \<open>parseLocalDate (getLocalDate d)\<close> is a valid date with the local year, month and day
  of \<open>d\<close>; and at local time 23:30 on the calendar day \<open>y-m-dt\<close>, in the zone UTC-5 as in
  any other, \<open>getLocalDate\<close> returns that day. Years below 100 are excluded: the
  three-argument constructor reads 0 to 99 as 1900 to 1999, and a negative year adds a
  fourth part to the split.
\<close>

theorem parseLocalDate_getLocalDate_roundtrip:
  "(\<bar>t\<bar> \<le> 8640000000000000 \<and> \<bar>tza\<bar> \<le> msPerDay \<and> 100 \<le> YearFromTime (LocalTime tza t) \<longrightarrow>
      (let d' = parseLocalDate tza now fromString (getLocalDate tza (Some t))
       in d' \<noteq> None \<and> getFullYear tza d' = getFullYear tza (Some t)
          \<and> getMonth tza d' = getMonth tza (Some t) \<and> getDate tza d' = getDate tza (Some t)))
   \<and> (0 \<le> m \<and> m \<le> 11 \<and> 1 \<le> dt \<and> MakeDay y m dt < MakeDay y (m + 1) 1 \<longrightarrow>
      getLocalDate (- 5 * msPerHour)
        (Some (UTC (- 5 * msPerHour) (MakeDate (MakeDay y m dt) (MakeTime 23 30 0 0))))
      = numberToString (Some y) @ ''-'' @ pad2 (m + 1) @ ''-'' @ pad2 dt)"
proof (intro conjI impI)
  assume "\<bar>t\<bar> \<le> 8640000000000000 \<and> \<bar>tza\<bar> \<le> msPerDay \<and> 100 \<le> YearFromTime (LocalTime tza t)"
  then have p: "parseLocalDate tza now fromString (getLocalDate tza (Some t))
      = Some (UTC tza (MakeDate (Day (LocalTime tza t)) 0))"
    by (intro parseLocalDate_getLocalDate) simp_all
  show "let d' = parseLocalDate tza now fromString (getLocalDate tza (Some t))
       in d' \<noteq> None \<and> getFullYear tza d' = getFullYear tza (Some t)
          \<and> getMonth tza d' = getMonth tza (Some t) \<and> getDate tza d' = getDate tza (Some t)"
    unfolding p Let_def using local_midnight_components[of tza t] by simp
next
  assume "0 \<le> m \<and> m \<le> 11 \<and> 1 \<le> dt \<and> MakeDay y m dt < MakeDay y (m + 1) 1"
  then show "getLocalDate (- 5 * msPerHour)
        (Some (UTC (- 5 * msPerHour) (MakeDate (MakeDay y m dt) (MakeTime 23 30 0 0))))
      = numberToString (Some y) @ ''-'' @ pad2 (m + 1) @ ''-'' @ pad2 dt"
    by (intro getLocalDate_late_evening) simp_all
qed

theorem parseLocalDate_getLocalDate_roundtrip_witness:
  "(\<bar>1768192200000\<bar> \<le> (8640000000000000 :: int) \<and> \<bar>- 18000000\<bar> \<le> msPerDay
      \<and> 100 \<le> YearFromTime (LocalTime (- 18000000) 1768192200000))
   \<and> (let d' = parseLocalDate (- 18000000) 0 invalidDate (getLocalDate (- 18000000) (Some 1768192200000))
       in d' \<noteq> None \<and> getFullYear (- 18000000) d' = Some 2026
          \<and> getMonth (- 18000000) d' = Some 0 \<and> getDate (- 18000000) d' = Some 11)
   \<and> ((0 :: int) \<le> 0 \<and> (0 :: int) \<le> 11 \<and> (1 :: int) \<le> 11 \<and> MakeDay 2026 0 11 < MakeDay 2026 (0 + 1) 1)
   \<and> getLocalDate (- 5 * msPerHour)
        (Some (UTC (- 5 * msPerHour) (MakeDate (MakeDay 2026 0 11) (MakeTime 23 30 0 0))))
      = ''2026-01-11''"
proof -
  have h1: "\<bar>1768192200000\<bar> \<le> (8640000000000000 :: int) \<and> \<bar>- 18000000\<bar> \<le> msPerDay
      \<and> 100 \<le> YearFromTime (LocalTime (- 18000000) 1768192200000)"
    by code_simp
  have h2: "(0 :: int) \<le> 0 \<and> (0 :: int) \<le> 11 \<and> (1 :: int) \<le> 11 \<and> MakeDay 2026 0 11 < MakeDay 2026 (0 + 1) 1"
    by code_simp
  have c: "getFullYear (- 18000000) (Some 1768192200000) = Some 2026"
    "getMonth (- 18000000) (Some 1768192200000) = Some 0"
    "getDate (- 18000000) (Some 1768192200000) = Some 11"
    by code_simp+
  have s: "numberToString (Some 2026) @ ''-'' @ pad2 (0 + 1) @ ''-'' @ pad2 11 = ''2026-01-11''"
    by code_simp
  note r = parseLocalDate_getLocalDate_roundtrip[of 1768192200000 "- 18000000" 0 invalidDate 0 11 2026]
  from r h1 have a: "let d' = parseLocalDate (- 18000000) 0 invalidDate (getLocalDate (- 18000000) (Some 1768192200000))
       in d' \<noteq> None \<and> getFullYear (- 18000000) d' = Some 2026
          \<and> getMonth (- 18000000) d' = Some 0 \<and> getDate (- 18000000) d' = Some 11"
    unfolding c by blast
  from r h2 have b: "getLocalDate (- 5 * msPerHour)
        (Some (UTC (- 5 * msPerHour) (MakeDate (MakeDay 2026 0 11) (MakeTime 23 30 0 0))))
      = ''2026-01-11''"
    unfolding s by blast
  show ?thesis using h1 a h2 b by blast
qed

text \<open>
  The claim as stated, for every \<open>Date\<close>, fails on a date in the year 50: the string is
  \<open>50-01-05\<close> and the parsed date lies in 1950.
\<close>

theorem parseLocalDate_getLocalDate_counterexample:
  "getFullYear 0 (parseLocalDate 0 0 invalidDate (getLocalDate 0 (Some (- 60588950400000))))
     \<noteq> getFullYear 0 (Some (- 60588950400000))"
  by code_simp

section \<open>Verification: the storage module\<close>

subsection \<open>Guard and await leave the cache alone\<close>

lemma guard_keeps [simp]:
  "DAILY (snd (guard env s)) = DAILY s" "IDEAS (snd (guard env s)) = IDEAS s"
  "WEEKLY (snd (guard env s)) = WEEKLY s" "TODOS (snd (guard env s)) = TODOS s"
  "DECISIONS (snd (guard env s)) = DECISIONS s" "CONTACTS (snd (guard env s)) = CONTACTS s"
  "DISCOVERIES (snd (guard env s)) = DISCOVERIES s" "EXPENSES (snd (guard env s)) = EXPENSES s"
  "sent (snd (guard env s)) = sent s" "remote (snd (guard env s)) = remote s"
  "clock (snd (guard env s)) = clock s"
  by (simp_all add: guard_def checkRateLimit_def Let_def split_beta)

lemma await_keeps [simp]:
  "DAILY (snd (await env q s)) = DAILY s" "IDEAS (snd (await env q s)) = IDEAS s"
  "WEEKLY (snd (await env q s)) = WEEKLY s" "TODOS (snd (await env q s)) = TODOS s"
  "DECISIONS (snd (await env q s)) = DECISIONS s" "CONTACTS (snd (await env q s)) = CONTACTS s"
  "DISCOVERIES (snd (await env q s)) = DISCOVERIES s" "EXPENSES (snd (await env q s)) = EXPENSES s"
  "clock (snd (await env q s)) = clock s"
  "sent (snd (await env q s)) = sent s @ [(q, fst (await env q s))]"
  by (simp_all add: await_def Let_def split_beta)

lemma getCache_updateCache [simp]: "getCache (updateCache xs) = xs"
  by (simp add: getCache_def updateCache_def)

lemmas getters = getDailyEntries_def getIdeas_def getWeeklyOutcomes_def getTodos_def
  getDecisions_def getContacts_def getDiscoveries_def getExpenses_def

lemmas writes =
  saveDailyEntry_def updateDailyEntry_def deleteDailyEntry_def
  saveIdea_def updateIdea_def deleteIdea_def
  saveWeeklyOutcome_def updateWeeklyOutcome_def deleteWeeklyOutcome_def
  saveTodo_def updateTodo_def deleteTodo_def
  saveDecision_def updateDecision_def deleteDecision_def
  saveContact_def updateContact_def deleteContact_def
  saveDiscovery_def updateDiscovery_def deleteDiscovery_def
  saveExpense_def deleteExpense_def

lemmas fetches =
  fetchDailyEntries_def fetchIdeas_def fetchWeeklyOutcomes_def fetchTodos_def
  fetchDecisions_def fetchContacts_def fetchDiscoveries_def fetchExpenses_def




subsection \<open>Failed writes\<close>



subsection \<open>Update, then get\<close>

lemma update_get:
  "attempts env (UpdateDailyEntry e) s \<noteq> [] \<Longrightarrow> \<not> failed (last (attempts env (UpdateDailyEntry e) s)) \<Longrightarrow>
     getDailyEntries (updateDailyEntry env e s) = map (\<lambda>x. if de_id x = de_id e then e else x) (getDailyEntries s)"
  "attempts env (UpdateIdea i) s \<noteq> [] \<Longrightarrow> \<not> failed (last (attempts env (UpdateIdea i) s)) \<Longrightarrow>
     getIdeas (updateIdea env i s) = map (\<lambda>x. if idea_id x = idea_id i then i else x) (getIdeas s)"
  "attempts env (UpdateWeeklyOutcome w) s \<noteq> [] \<Longrightarrow> \<not> failed (last (attempts env (UpdateWeeklyOutcome w) s)) \<Longrightarrow>
     getWeeklyOutcomes (updateWeeklyOutcome env w s) = map (\<lambda>x. if wo_id x = wo_id w then w else x) (getWeeklyOutcomes s)"
  "attempts env (UpdateTodo t) s \<noteq> [] \<Longrightarrow> \<not> failed (last (attempts env (UpdateTodo t) s)) \<Longrightarrow>
     getTodos (updateTodo env t s) = map (\<lambda>x. if todo_id x = todo_id t then t else x) (getTodos s)"
  "attempts env (UpdateDecision d) s \<noteq> [] \<Longrightarrow> \<not> failed (last (attempts env (UpdateDecision d) s)) \<Longrightarrow>
     getDecisions (updateDecision env d s) = map (\<lambda>x. if dg_id x = dg_id d then d else x) (getDecisions s)"
  "attempts env (UpdateContact k) s \<noteq> [] \<Longrightarrow> \<not> failed (last (attempts env (UpdateContact k) s)) \<Longrightarrow>
     getContacts (updateContact env k s) = map (\<lambda>x. if ct_id x = ct_id k then k else x) (getContacts s)"
  "attempts env (UpdateDiscovery v) s \<noteq> [] \<Longrightarrow> \<not> failed (last (attempts env (UpdateDiscovery v) s)) \<Longrightarrow>
     getDiscoveries (updateDiscovery env v s) = map (\<lambda>x. if disc_id x = disc_id v then v else x) (getDiscoveries s)"
  by (simp_all add: attempts_def failed_def getters writes Let_def split_beta split: if_splits)

subsection \<open>Number of remote attempts\<close>

lemma attempts_bound:
  "length (attempts env c s) \<le> (if hasLegacyRetry c then 2 else 1)"
  by (cases c)
     (simp_all add: attempts_def writes fetches Let_def split_beta)

lemma second_attempt:
  "length (attempts env c s) = 2 \<Longrightarrow> hasLegacyRetry c \<and> failed (hd (attempts env c s))"
  by (cases c)
     (simp_all add: attempts_def failed_def writes fetches Let_def split_beta split: if_splits)

lemma retry_made:
  "hasLegacyRetry c \<Longrightarrow> attempts env c s \<noteq> [] \<Longrightarrow> failed (hd (attempts env c s)) \<Longrightarrow>
     length (attempts env c s) = 2"
  by (cases c)
     (simp_all add: attempts_def failed_def writes fetches Let_def split_beta split: if_splits)

subsection \<open>Rate limit\<close>

lemma rate_limited:
  assumes "\<not> fst (checkRateLimit env s)"
  shows "attempts env (SaveIdea idea) s = []" "sent (saveIdea env idea s) = sent s"
    "remote (saveIdea env idea s) = remote s" "IDEAS (saveIdea env idea s) = IDEAS s"
    "cached (saveIdea env idea s) = cached s"
  using assms
  by (simp_all add: attempts_def cached_def getters saveIdea_def guard_def checkRateLimit_def
        Let_def split_beta)

section \<open>Verification: the views\<close>

subsection \<open>Sorting with a comparator\<close>

lemma set_insertBy: "set (insertBy cmp x ys) = insert x (set ys)"
  by (induction ys) auto

lemma mset_insertBy: "mset (insertBy cmp x ys) = add_mset x (mset ys)"
  by (induction ys) auto

lemma mset_sortBy: "mset (sortBy cmp xs) = mset xs"
  unfolding sortBy_def by (induction xs) (simp_all add: mset_insertBy)

lemma sorted_insertBy:
  fixes k :: "'a \<Rightarrow> nat"
  assumes le: "\<And>x y. cmp x y \<le> 0 \<Longrightarrow> k x \<le> k y"
    and gt: "\<And>x y. \<not> cmp x y \<le> 0 \<Longrightarrow> k y \<le> k x"
  shows "sorted (map k ys) \<Longrightarrow> sorted (map k (insertBy cmp x ys))"
proof (induction ys)
  case Nil
  show ?case by simp
next
  case (Cons y ys)
  show ?case
  proof (cases "cmp x y \<le> 0")
    case True
    then have "k x \<le> k y" by (rule le)
    then show ?thesis using True Cons.prems by auto
  next
    case False
    then have "k y \<le> k x" by (rule gt)
    then show ?thesis using False Cons by (auto simp: set_insertBy)
  qed
qed

lemma sorted_sortBy:
  fixes k :: "'a \<Rightarrow> nat"
  assumes "\<And>x y. cmp x y \<le> 0 \<Longrightarrow> k x \<le> k y" "\<And>x y. \<not> cmp x y \<le> 0 \<Longrightarrow> k y \<le> k x"
  shows "sorted (map k (sortBy cmp xs))"
  unfolding sortBy_def
  by (induction xs) (simp_all add: sorted_insertBy[where cmp = cmp and k = k, OF assms])

lemma sorted_key_nth:
  fixes k :: "'a \<Rightarrow> nat"
  assumes "sorted (map k xs)" "i < j" "j < length xs"
  shows "k (xs ! i) \<le> k (xs ! j)"
  using sorted_nth_mono[of "map k xs" i j] assms by simp

lemma sorted_ideas: "sorted (map ideaRank (sortedIdeas lc ideas))"
  unfolding sortedIdeas_def
  by (rule sorted_sortBy) (auto simp: ideaCompare_def ideaRank_def Let_def split: if_splits)

lemma sorted_discoveries: "sorted (map (pinRank disc_pinned) (sortedDiscoveries lc ds))"
  unfolding sortedDiscoveries_def
  by (rule sorted_sortBy) (auto simp: discoveryCompare_def pinRank_def split: if_splits)

lemma sorted_byPinned: "sorted (map (pinRank p) (sortByPinned p xs))"
  unfolding sortByPinned_def
  by (rule sorted_sortBy) (auto simp: pinRank_def split: if_splits)

lemma ideas_pinned_first:
  assumes "i < j" "j < length (sortedIdeas lc ideas)"
    "orFalse (idea_executed (sortedIdeas lc ideas ! i)) = orFalse (idea_executed (sortedIdeas lc ideas ! j))"
    "orFalse (idea_pinned (sortedIdeas lc ideas ! j))"
  shows "orFalse (idea_pinned (sortedIdeas lc ideas ! i))"
  using sorted_key_nth[OF sorted_ideas assms(1,2)] assms(3,4)
  by (auto simp: ideaRank_def split: if_splits)

lemma discoveries_pinned_first:
  assumes "i < j" "j < length (sortedDiscoveries lc ds)"
    "orFalse (disc_pinned (sortedDiscoveries lc ds ! j))"
  shows "orFalse (disc_pinned (sortedDiscoveries lc ds ! i))"
  using sorted_key_nth[OF sorted_discoveries assms(1,2)] assms(3)
  by (auto simp: pinRank_def split: if_splits)

lemma byPinned_pinned_first:
  assumes "i < j" "j < length (sortByPinned p xs)" "orFalse (p (sortByPinned p xs ! j))"
  shows "orFalse (p (sortByPinned p xs ! i))"
  using sorted_key_nth[OF sorted_byPinned assms(1,2)] assms(3)
  by (auto simp: pinRank_def split: if_splits)

lemma two_ideas:
  assumes "orFalse (idea_executed a) = orFalse (idea_executed b)"
    "\<not> orFalse (idea_pinned a)" "orFalse (idea_pinned b)"
  shows "sortedIdeas lc [a, b] = [b, a]" "sortedIdeas lc [b, a] = [b, a]"
  using assms by (simp_all add: sortedIdeas_def sortBy_def ideaCompare_def Let_def)

subsection \<open>Todo completion\<close>

lemma toISOString_nonempty: "toISOString t \<noteq> []"
  by (simp add: toISOString_def)

lemma toggle_invariant:
  "todo_completed (toggleCompleteUpdated now t) = (todo_status (toggleCompleteUpdated now t) = ''Completed'')"
  by (simp add: toggleCompleteUpdated_def Let_def)

lemma updateStatus_invariant:
  "todo_completed (updateStatusUpdated now t st) = (todo_status (updateStatusUpdated now t st) = ''Completed'')"
  by (simp add: updateStatusUpdated_def Let_def)

lemma toggle_completedAt:
  "todo_completedAt (toggleCompleteUpdated now t)
     = (if todo_completed t then None else Some (toISOString now))"
  by (simp add: toggleCompleteUpdated_def Let_def)

lemma updateStatus_completedAt:
  assumes "todo_completed t = (todo_status t = ''Completed'')"
  shows "todo_completedAt (updateStatusUpdated now t st)
     = (if st = ''Completed'' \<and> todo_status t \<noteq> ''Completed'' then Some (toISOString now)
        else if st \<noteq> ''Completed'' \<and> todo_status t = ''Completed'' then None
        else todo_completedAt t)"
  using assms by (simp add: updateStatusUpdated_def Let_def)

subsection \<open>Streak\<close>

lemma streakLoop_counting:
  "0 < i \<Longrightarrow> streakLoop dates ds i n = n + length (takeWhile (\<lambda>d. d \<in> set dates) ds)"
  by (induction ds arbitrary: i n) simp_all

lemma streakLoop_start:
  "streakLoop dates w 0 0 =
     (case w of [] \<Rightarrow> 0
      | d # ds \<Rightarrow> (if d \<in> set dates then 1 else 0) + length (takeWhile (\<lambda>d. d \<in> set dates) ds))"
  by (cases w) (simp_all add: streakLoop_counting)

subsection \<open>The window of the last thirty days\<close>

lemma MakeDay_shift: "MakeDay y m (d - k) = MakeDay y m d - k"
  by (simp add: MakeDay_def)

lemma MakeDate_split: "MakeDate (Day t) (TimeWithinDay t) = t"
  by (simp add: MakeDate_def Day_def TimeWithinDay_def)

lemma setDate_back:
  assumes "\<bar>now - int i * msPerDay\<bar> \<le> 8640000000000000"
  shows "setDate tza (Some now) (map_option (\<lambda>g. g - int i) (getDate tza (Some now)))
         = Some (now - int i * msPerDay)"
proof -
  let ?t = "LocalTime tza now"
  have "MakeDate (MakeDay (YearFromTime ?t) (MonthFromTime ?t) (DateFromTime ?t - int i)) (TimeWithinDay ?t)
        = MakeDate (Day ?t) (TimeWithinDay ?t) - int i * msPerDay"
    unfolding MakeDay_shift MakeDay_of_components by (simp add: MakeDate_def algebra_simps)
  then have "UTC tza (MakeDate (MakeDay (YearFromTime ?t) (MonthFromTime ?t) (DateFromTime ?t - int i)) (TimeWithinDay ?t))
        = now - int i * msPerDay"
    unfolding MakeDate_split by (simp add: UTC_def LocalTime_def)
  then show ?thesis using assms by (simp add: setDate_def getDate_def TimeClip_def Let_def)
qed

lemma last30Days_days:
  assumes "\<bar>now\<bar> \<le> 8000000000000000"
  shows "last30Days tza mounted now =
     filter (\<lambda>d. stringGe d SYSTEM_START_DATE)
       (map (dayBefore tza now) [0 ..< nat (min 30 (daysSinceStart mounted + 1))])"
proof -
  have "getLocalDate tza (setDate tza (Some now) (map_option (\<lambda>g. g - int i) (getDate tza (Some now))))
        = dayBefore tza now i" if "i \<in> set [0 ..< nat (min 30 (daysSinceStart mounted + 1))]" for i
  proof -
    have "i < 30" using that by auto
    then have "int i * msPerDay \<le> 30 * msPerDay" by (simp add: msPerDay_def)
    then have "\<bar>now - int i * msPerDay\<bar> \<le> 8640000000000000"
      using assms by (simp add: msPerDay_def)
    then show ?thesis unfolding dayBefore_def by (simp add: setDate_back)
  qed
  then have "map (\<lambda>i. getLocalDate tza
        (setDate tza (Some now) (map_option (\<lambda>g. g - int i) (getDate tza (Some now)))))
      [0 ..< nat (min 30 (daysSinceStart mounted + 1))]
    = map (dayBefore tza now) [0 ..< nat (min 30 (daysSinceStart mounted + 1))]"
    by (intro map_cong[OF refl])
  then show ?thesis unfolding last30Days_def Let_def by (rule arg_cong)
qed

lemma set_sortBy: "set (sortBy cmp xs) = set xs"
  using mset_sortBy[of cmp xs] by (metis set_mset_mset)

lemma set_logDates: "set (logDates dailyLogs) = set (map de_date dailyLogs)"
  by (simp add: logDates_def uniq_def set_sortBy)

lemma set_filtered:
  "d \<in> set (map de_date (filter (\<lambda>l. stringGe (de_date l) SYSTEM_START_DATE) logs))
     \<longleftrightarrow> d \<in> set (map de_date logs) \<and> stringGe d SYSTEM_START_DATE"
  by auto

lemma streak_three:
  assumes now: "\<bar>now\<bar> \<le> 8000000000000000" and win: "3 \<le> daysSinceStart mounted"
    and ge: "stringGe (dayBefore tza now 0) SYSTEM_START_DATE"
      "stringGe (dayBefore tza now 1) SYSTEM_START_DATE"
      "stringGe (dayBefore tza now 2) SYSTEM_START_DATE"
      "stringGe (dayBefore tza now 3) SYSTEM_START_DATE"
    and logged: "dayBefore tza now 0 \<in> set (map de_date logs)"
      "dayBefore tza now 1 \<in> set (map de_date logs)"
      "dayBefore tza now 2 \<in> set (map de_date logs)"
    and gap: "dayBefore tza now 3 \<notin> set (map de_date logs)"
  shows "streak tza mounted now logs = 3"
proof -
  define n where "n = nat (min 30 (daysSinceStart mounted + 1))"
  have n: "4 \<le> n" unfolding n_def using win by simp
  have "[0 ..< n] = [0 ..< 4] @ [4 ..< n]" using n upt_add_eq_append[of 0 4 "n - 4"] by simp
  also have "[0 ..< 4] = [0, 1, 2, 3 :: nat]" by (simp add: upt_rec)
  finally have idx: "[0 ..< n] = [0, 1, 2, 3] @ [4 ..< n]" .
  have w: "last30Days tza mounted now =
      dayBefore tza now 0 # dayBefore tza now 1 # dayBefore tza now 2 # dayBefore tza now 3 #
      filter (\<lambda>d. stringGe d SYSTEM_START_DATE) (map (dayBefore tza now) [4 ..< n])"
    unfolding last30Days_days[OF now] n_def[symmetric] idx using ge by simp
  show ?thesis
    unfolding streak_def Let_def w streakLoop_start set_logDates
    using ge logged gap by (simp del: set_map add: set_filtered)
qed

lemma streak_window:
  "streak tza mounted now logs =
     (case last30Days tza mounted now of [] \<Rightarrow> 0
      | d # ds \<Rightarrow>
         (if d \<in> set (map de_date logs) \<and> stringGe d SYSTEM_START_DATE then 1 else 0)
         + length (takeWhile (\<lambda>x. x \<in> set (map de_date logs) \<and> stringGe x SYSTEM_START_DATE) ds))"
proof -
  have m: "(\<lambda>d. d \<in> set (map de_date (filter (\<lambda>l. stringGe (de_date l) SYSTEM_START_DATE) logs)))
      = (\<lambda>x. x \<in> set (map de_date logs) \<and> stringGe x SYSTEM_START_DATE)"
    by (rule ext) (rule set_filtered)
  show ?thesis unfolding streak_def Let_def streakLoop_start set_logDates m
    by (simp only: set_filtered)
qed

end
